theory Spec2Isabelle
  imports Complex_Main "HOL-Library.Word"
begin

unbundle bit_operations_syntax

section \<open>Data model\<close>

subsection \<open>Result codes\<close>

text \<open>
  The result codes of a temperature reading (\<^verbatim>\<open>enum class TemperatureError\<close>). The
  header that declares the enumeration is not among the sources; the constructors are the
  codes the sources and the specification name (\<^verbatim>\<open>success\<close>, \<^verbatim>\<open>openCircuit\<close>,
  \<^verbatim>\<open>notReady\<close>, \<^verbatim>\<open>badVref\<close>, \<^verbatim>\<open>badVssa\<close>), \<open>stale\<close> is the specification's
  stale/timeout classification of a reading that is too old, and \<open>otherError n\<close> stands for
  every further code of the enumeration.
\<close>

datatype TemperatureError =
    success
  | openCircuit
  | stale
  | notReady
  | badVref
  | badVssa
  | otherError nat

subsection \<open>TemperatureSensor\<close>

text \<open>
  The mutable fields of \<^verbatim>\<open>class TemperatureSensor\<close> (TemperatureSensor.h). The type
  \<open>'f\<close> stands for the C++ type \<^verbatim>\<open>float\<close>; \<^verbatim>\<open>whenLastRead\<close> is a \<^verbatim>\<open>uint32_t\<close>
  count of milliseconds.
\<close>

record 'f TemperatureSensor =
  sensorNumber :: nat
  sensorType :: string
  lastTemperature :: 'f
  whenLastRead :: "32 word"
  lastResult :: TemperatureError
  lastRealError :: TemperatureError

definition TemperatureReadingTimeout :: "32 word" where
  "TemperatureReadingTimeout = 2000"

definition GetLastError :: "'f TemperatureSensor \<Rightarrow> TemperatureError" where
  "GetLastError s = lastRealError s"

text \<open>
  Modelled from the spec: the bodies of \<^verbatim>\<open>TemperatureSensor::SetResult\<close> (both overloads)
  are in TemperatureSensor.cpp, which is not among the sources; only the declarations are.
  The specification (section 4.3): \<^emph>\<open>SetResult(value, code) updates the cached value and
  timestamp only when code indicates success; it always updates last-result; it updates
  last-error only when code is itself an error (success and the "not-ready-yet" transient
  are never recorded as the sticky error)\<close>. \<open>now\<close> is the value of the millisecond clock
  at the call.
\<close>

definition SetResult :: "32 word \<Rightarrow> 'f \<Rightarrow> TemperatureError \<Rightarrow> 'f TemperatureSensor \<Rightarrow> 'f TemperatureSensor" where
  "SetResult now t rslt s =
     (let s1 = s\<lparr>lastResult := rslt\<rparr>;
          s2 = (if rslt = success then s1\<lparr>lastTemperature := t, whenLastRead := now\<rparr> else s1)
      in if rslt \<noteq> success \<and> rslt \<noteq> notReady then s2\<lparr>lastRealError := rslt\<rparr> else s2)"

text \<open>
  Modelled from the spec: the overload \<^verbatim>\<open>SetResult(TemperatureError rslt)\<close>, which carries
  no value. The same rule for last-result and last-error; with no value to cache, the cached
  value and the timestamp stay.
\<close>

definition SetResult_code :: "TemperatureError \<Rightarrow> 'f TemperatureSensor \<Rightarrow> 'f TemperatureSensor" where
  "SetResult_code rslt s =
     (let s1 = s\<lparr>lastResult := rslt\<rparr>
      in if rslt \<noteq> success \<and> rslt \<noteq> notReady then s1\<lparr>lastRealError := rslt\<rparr> else s1)"

text \<open>
  Modelled from the spec: the body of \<^verbatim>\<open>TemperatureSensor::GetLatestTemperature\<close> is in
  TemperatureSensor.cpp, which is not among the sources. The specification (section 4.3):
  \<^emph>\<open>returns the cached value if the last read code was success and the cache is not older
  than the staleness threshold; otherwise returns a result classifying why (timeout/stale,
  not-ready, or the specific sticky error)\<close>. The result is the returned code and the value
  handed back (\<open>None\<close> when no cached value is reported). The age of the cache is the
  \<^verbatim>\<open>uint32_t\<close> difference of the clock \<open>now\<close> and \<^verbatim>\<open>whenLastRead\<close>.
\<close>

definition GetLatestTemperature :: "32 word \<Rightarrow> 'f TemperatureSensor \<Rightarrow> TemperatureError \<times> 'f option" where
  "GetLatestTemperature now s =
     (if now - whenLastRead s > TemperatureReadingTimeout then (stale, None)
      else if lastResult s = success then (success, Some (lastTemperature s))
      else if lastResult s = notReady then (notReady, None)
      else (lastRealError s, None))"

subsection \<open>ScanningSensorHandler\<close>

text \<open>
  \<^verbatim>\<open>ScanningSensorHandler::GetReading\<close>. The static pointer \<^verbatim>\<open>sensor\<close> is \<open>None\<close> when null.
  \<^verbatim>\<open>LDC1612::GetChannelResult(channel, val)\<close> is not among the sources: it is the parameter
  \<open>GetChannelResult\<close>, which gives the returned flag and the content of \<^verbatim>\<open>val\<close> after the
  call.
\<close>

definition GetReading :: "('dev \<Rightarrow> nat \<Rightarrow> bool \<times> 32 word) \<Rightarrow> 'dev option \<Rightarrow> 32 word" where
  "GetReading GetChannelResult sensor =
     (case sensor of
        None \<Rightarrow> 0
      | Some dev \<Rightarrow>
          (case GetChannelResult dev 0 of
             (ok, val) \<Rightarrow>
               if ok then (if drop_bit 28 val = 0 then val else 0)
               else 0))"

section \<open>The shared bus and its environment\<close>

text \<open>
  The memory a \<^verbatim>\<open>uint8_t *\<close> points to is a function from the offset to the byte there:
  \<^verbatim>\<open>*p\<close> is \<open>p 0\<close>, and \<^verbatim>\<open>p + 1\<close> is \<open>\<lambda>i. p (Suc i)\<close>. A \<^verbatim>\<open>size_t\<close> count is a \<open>nat\<close>.
\<close>

type_synonym bytes = "nat \<Rightarrow> 8 word"

type_synonym Pin = nat

text \<open>
  What the code does to the world outside it, in order: each call of a function whose body
  is not among the sources (the RTOS mutex, \<^verbatim>\<open>SharedI2CMaster::Transfer\<close>, the SPI client,
  the pin functions, the task suspension) is one event, with its arguments and its result.
\<close>

datatype Event =
    MutexTake "32 word" bool
  | MasterTransfer "16 word" "8 word" bytes nat nat bool
  | MutexRelease
  | SpiSelect "32 word" bool
  | SpiTransceive bytes nat bool
  | SpiDeselect
  | PinModeInputPullup Pin
  | DelayMicroseconds nat
  | DigitalRead Pin bool
  | AttachInterrupt Pin bool
  | TaskTake "32 word option"

text \<open>
  The environment answers those calls. Every answer may depend on all that has happened so
  far (the list of events), so the environment is any deterministic device, bus and
  scheduler. \<open>master_Transfer\<close> and \<open>spi_TransceivePacket\<close> return the flag and the content
  of the buffer handed to them as it is after the call. \<open>task_Take\<close> tells whether the INT1
  interrupt handler ran while the task was suspended, and the timer ticks it read.
\<close>

record Env =
  mutex_Take :: "Event list \<Rightarrow> 32 word \<Rightarrow> bool"
  master_Transfer :: "Event list \<Rightarrow> 16 word \<Rightarrow> 8 word \<Rightarrow> bytes \<Rightarrow> nat \<Rightarrow> nat \<Rightarrow> bool \<times> bytes"
  spi_Select :: "Event list \<Rightarrow> 32 word \<Rightarrow> bool"
  spi_TransceivePacket :: "Event list \<Rightarrow> bytes \<Rightarrow> nat \<Rightarrow> bool \<times> bytes"
  pin_digitalRead :: "Event list \<Rightarrow> Pin \<Rightarrow> bool"
  pin_attachInterrupt :: "Event list \<Rightarrow> Pin \<Rightarrow> bool"
  task_Take :: "Event list \<Rightarrow> 32 word option"

subsection \<open>SharedI2CMaster\<close>

text \<open>
  \<^verbatim>\<open>SharedI2CMaster::Take\<close> and \<^verbatim>\<open>Release\<close> (SharedI2CMaster.h) forward to the mutex.
  \<^verbatim>\<open>SharedI2CMaster::Transfer\<close> is declared there; its body is the environment's.
\<close>

definition Take :: "Env \<Rightarrow> 32 word \<Rightarrow> Event list \<Rightarrow> bool \<times> Event list" where
  "Take env timeout h = (let ok = mutex_Take env h timeout in (ok, h @ [MutexTake timeout ok]))"

definition Release :: "Event list \<Rightarrow> Event list" where
  "Release h = h @ [MutexRelease]"

definition SharedI2CMaster_Transfer ::
  "Env \<Rightarrow> 16 word \<Rightarrow> 8 word \<Rightarrow> bytes \<Rightarrow> nat \<Rightarrow> nat \<Rightarrow> Event list \<Rightarrow> (bool \<times> bytes) \<times> Event list" where
  "SharedI2CMaster_Transfer env address firstByte buffer numToWrite numToRead h =
     (case master_Transfer env h address firstByte buffer numToWrite numToRead of
        (ret, buffer') \<Rightarrow>
          ((ret, buffer'), h @ [MasterTransfer address firstByte buffer numToWrite numToRead ret]))"

subsection \<open>SharedI2CClient\<close>

text \<open>
  \<^verbatim>\<open>class SharedI2CClient\<close> holds a reference to the bus master (here: the environment) and
  the bound device address.
\<close>

record SharedI2CClient =
  address :: "16 word"

text \<open>
  \<^verbatim>\<open>SharedI2CClient::Transfer\<close> (SharedI2CClient.cpp). The result is the returned flag, the
  caller's buffer after the call and the events so far. The master is given \<^verbatim>\<open>*buffer\<close>
  and \<^verbatim>\<open>buffer + 1\<close>: what it leaves in its buffer is the caller's buffer from offset 1 on.
\<close>

definition Transfer ::
  "Env \<Rightarrow> 'a SharedI2CClient_scheme \<Rightarrow> bytes \<Rightarrow> nat \<Rightarrow> nat \<Rightarrow> 32 word \<Rightarrow> Event list
     \<Rightarrow> (bool \<times> bytes) \<times> Event list" where
  "Transfer env client buffer numToWrite numToRead timeout h =
     (case Take env timeout h of
        (taken, h1) \<Rightarrow>
          if \<not> taken then ((False, buffer), h1)
          else
            (case SharedI2CMaster_Transfer env (address client) (buffer 0) (\<lambda>i. buffer (Suc i))
                    numToWrite numToRead h1 of
               ((ret, rest), h2) \<Rightarrow>
                 ((ret, (\<lambda>i. case i of 0 \<Rightarrow> buffer 0 | Suc j \<Rightarrow> rest j)), Release h2)))"

subsection \<open>SPI client and pins\<close>

text \<open>
  The calls of the SPI variant (\<^verbatim>\<open>Select\<close>, \<^verbatim>\<open>TransceivePacket\<close>, \<^verbatim>\<open>Deselect\<close> of
  \<^verbatim>\<open>SharedSpiClient\<close>) and the pin and delay functions; none of their bodies is among the
  sources, so each is its event and the environment's answer.
\<close>

definition Select :: "Env \<Rightarrow> 32 word \<Rightarrow> Event list \<Rightarrow> bool \<times> Event list" where
  "Select env timeout h = (let ok = spi_Select env h timeout in (ok, h @ [SpiSelect timeout ok]))"

definition TransceivePacket :: "Env \<Rightarrow> bytes \<Rightarrow> nat \<Rightarrow> Event list \<Rightarrow> (bool \<times> bytes) \<times> Event list" where
  "TransceivePacket env buffer len h =
     (case spi_TransceivePacket env h buffer len of
        (ret, buffer') \<Rightarrow> ((ret, buffer'), h @ [SpiTransceive buffer len ret]))"

definition Deselect :: "Event list \<Rightarrow> Event list" where
  "Deselect h = h @ [SpiDeselect]"

definition pinMode_INPUT_PULLUP :: "Pin \<Rightarrow> Event list \<Rightarrow> Event list" where
  "pinMode_INPUT_PULLUP pin h = h @ [PinModeInputPullup pin]"

definition delayMicroseconds :: "nat \<Rightarrow> Event list \<Rightarrow> Event list" where
  "delayMicroseconds us h = h @ [DelayMicroseconds us]"

definition digitalRead :: "Env \<Rightarrow> Pin \<Rightarrow> Event list \<Rightarrow> bool \<times> Event list" where
  "digitalRead env pin h = (let v = pin_digitalRead env h pin in (v, h @ [DigitalRead pin v]))"

definition attachInterrupt :: "Env \<Rightarrow> Pin \<Rightarrow> Event list \<Rightarrow> bool \<times> Event list" where
  "attachInterrupt env pin h =
     (let ok = pin_attachInterrupt env h pin in (ok, h @ [AttachInterrupt pin ok]))"

section \<open>LIS3DH accelerometer driver\<close>

datatype AccelerometerType = LIS3DH | LIS3DSH | LIS2DW

text \<open>
  A register address (\<^verbatim>\<open>enum class LisRegister : uint8_t\<close>). The header LIS3DH.h with the
  register map is not among the sources, so the registers the code below names, the
  compile-time switch \<^verbatim>\<open>ACCELEROMETER_USES_SPI\<close> and \<^verbatim>\<open>StepTimer::StepClockRate\<close> are
  parameters.
\<close>

type_synonym LisRegister = "8 word"

record LisConfig =
  ACCELEROMETER_USES_SPI :: bool
  FifoSource :: LisRegister
  OutXL :: LisRegister
  Ctrl_0x20 :: LisRegister
  StepClockRate :: "32 word"

definition Lis3dSpiTimeout :: "32 word" where
  "Lis3dSpiTimeout = 25"

definition Lis3dI2CTimeout :: "32 word" where
  "Lis3dI2CTimeout = 25"

text \<open>
  The fields of \<^verbatim>\<open>class LIS3DH\<close> that the functions below use; the class derives from the
  bus client. \<^verbatim>\<open>transferBuffer\<close> is a struct whose byte \<^verbatim>\<open>reg\<close> is followed directly by
  the array \<^verbatim>\<open>data\<close>: the code passes \<^verbatim>\<open>&transferBuffer.reg\<close> as the start of a buffer that
  runs on into \<^verbatim>\<open>data\<close>. The counters and time stamps are taken to be \<^verbatim>\<open>uint32_t\<close>.
  \<^verbatim>\<open>taskWaiting\<close> is true when it holds a task handle.
\<close>

record LIS3DH_driver = SharedI2CClient +
  accelerometerType :: AccelerometerType
  int1Pin :: Pin
  ctrlReg_0x20 :: "8 word"
  interruptError :: bool
  taskWaiting :: bool
  totalNumRead :: "32 word"
  firstInterruptTime :: "32 word"
  lastInterruptTime :: "32 word"
  transferBuffer_reg :: "8 word"
  transferBuffer_data :: bytes

text \<open>The memory at \<^verbatim>\<open>&transferBuffer.reg\<close>, and storing a buffer back into the struct.\<close>

definition transferBuffer_ptr :: "LIS3DH_driver \<Rightarrow> bytes" where
  "transferBuffer_ptr s = (\<lambda>i. case i of 0 \<Rightarrow> transferBuffer_reg s | Suc j \<Rightarrow> transferBuffer_data s j)"

definition transferBuffer_store :: "bytes \<Rightarrow> LIS3DH_driver \<Rightarrow> LIS3DH_driver" where
  "transferBuffer_store b s = s\<lparr>transferBuffer_reg := b 0, transferBuffer_data := (\<lambda>j. b (Suc j))\<rparr>"

text \<open>\<^verbatim>\<open>LIS3DH::ReadRegisters\<close>, both variants of the \<^verbatim>\<open>#if ACCELEROMETER_USES_SPI\<close>.\<close>

definition ReadRegisters ::
  "Env \<Rightarrow> LisConfig \<Rightarrow> LisRegister \<Rightarrow> nat \<Rightarrow> LIS3DH_driver \<Rightarrow> Event list
     \<Rightarrow> bool \<times> LIS3DH_driver \<times> Event list" where
  "ReadRegisters env cfg reg numToRead s h =
     (if ACCELEROMETER_USES_SPI cfg then
        (case Select env Lis3dSpiTimeout h of
           (selected, h1) \<Rightarrow>
             if \<not> selected then (False, s, h1)
             else
               (let h2 = delayMicroseconds 1 h1;
                    s1 = s\<lparr>transferBuffer_reg :=
                           reg OR (if numToRead < 2 \<or> accelerometerType s \<noteq> LIS3DH then 0x80 else 0xC0)\<rparr>
                in case TransceivePacket env (transferBuffer_ptr s1) (1 + numToRead) h2 of
                     ((ret, b), h3) \<Rightarrow> (ret, transferBuffer_store b s1, Deselect h3)))
      else
        (let regAddr = (if numToRead < 2 \<or> accelerometerType s \<noteq> LIS3DH then reg else reg OR 0x80);
             s1 = s\<lparr>transferBuffer_reg := regAddr\<rparr>
         in case Transfer env s1 (transferBuffer_ptr s1) 1 numToRead Lis3dI2CTimeout h of
              ((ret, b), h1) \<Rightarrow> (ret, transferBuffer_store b s1, h1)))"

text \<open>\<^verbatim>\<open>LIS3DH::WriteRegisters\<close>, with its guard on the register address.\<close>

definition WriteRegisters ::
  "Env \<Rightarrow> LisConfig \<Rightarrow> LisRegister \<Rightarrow> nat \<Rightarrow> LIS3DH_driver \<Rightarrow> Event list
     \<Rightarrow> bool \<times> LIS3DH_driver \<times> Event list" where
  "WriteRegisters env cfg reg numToWrite s h =
     (if reg < 0x1E then (False, s, h)
      else if ACCELEROMETER_USES_SPI cfg then
        (case Select env Lis3dSpiTimeout h of
           (selected, h1) \<Rightarrow>
             if \<not> selected then (False, s, h1)
             else
               (let s1 = s\<lparr>transferBuffer_reg :=
                           (if numToWrite < 2 \<or> accelerometerType s \<noteq> LIS3DH then reg else reg OR 0x40)\<rparr>
                in case TransceivePacket env (transferBuffer_ptr s1) (1 + numToWrite) h1 of
                     ((ret, b), h2) \<Rightarrow> (ret, transferBuffer_store b s1, Deselect h2)))
      else
        (let regAddr = (if numToWrite < 2 \<or> accelerometerType s \<noteq> LIS3DH then reg else reg OR 0x80);
             s1 = s\<lparr>transferBuffer_reg := regAddr\<rparr>
         in case Transfer env s1 (transferBuffer_ptr s1) (1 + numToWrite) 0 Lis3dI2CTimeout h of
              ((ret, b), h1) \<Rightarrow> (ret, transferBuffer_store b s1, h1)))"

text \<open>
  \<^verbatim>\<open>LIS3DH::ReadRegister\<close>: the reference parameter \<^verbatim>\<open>val\<close> is assigned only when the read
  succeeded, so the value is \<open>None\<close> when it failed.
\<close>

definition ReadRegister ::
  "Env \<Rightarrow> LisConfig \<Rightarrow> LisRegister \<Rightarrow> LIS3DH_driver \<Rightarrow> Event list
     \<Rightarrow> 8 word option \<times> LIS3DH_driver \<times> Event list" where
  "ReadRegister env cfg reg s h =
     (case ReadRegisters env cfg reg 1 s h of
        (ret, s1, h1) \<Rightarrow> ((if ret then Some (transferBuffer_data s1 0) else None), s1, h1))"

definition WriteRegister ::
  "Env \<Rightarrow> LisConfig \<Rightarrow> LisRegister \<Rightarrow> 8 word \<Rightarrow> LIS3DH_driver \<Rightarrow> Event list
     \<Rightarrow> bool \<times> LIS3DH_driver \<times> Event list" where
  "WriteRegister env cfg reg val s h =
     WriteRegisters env cfg reg 1 (s\<lparr>transferBuffer_data := (transferBuffer_data s)(0 := val)\<rparr>) h"

text \<open>
  The loop of \<^verbatim>\<open>LIS3DH::StartCollecting\<close> that clears the FIFO:
  \<^verbatim>\<open>while (ReadRegister(FifoSource, val) && <fifo not empty>) { if (!ReadRegisters(OutXL, 6)) return false; }\<close>.
  The test on \<^verbatim>\<open>val\<close> depends on the chip. The loop runs for as long as the device reports
  data, so the function takes fuel: \<open>None\<close> says that the loop is still running after that
  many rounds. \<open>Some (False, _)\<close> is the \<^verbatim>\<open>return false\<close> inside the loop, \<open>Some (True, _)\<close>
  is the loop left by its condition (the status read failed, or the FIFO is empty).
\<close>

definition fifoNotEmpty :: "AccelerometerType \<Rightarrow> 8 word \<Rightarrow> bool" where
  "fifoNotEmpty t val =
     (case t of
        LIS3DH \<Rightarrow> val AND 0x20 = 0
      | LIS3DSH \<Rightarrow> val AND 0x20 = 0
      | LIS2DW \<Rightarrow> val AND 0x3F \<noteq> 0)"

fun ClearFifo ::
  "nat \<Rightarrow> Env \<Rightarrow> LisConfig \<Rightarrow> (8 word \<Rightarrow> bool) \<Rightarrow> LIS3DH_driver \<Rightarrow> Event list
     \<Rightarrow> (bool \<times> LIS3DH_driver \<times> Event list) option" where
  "ClearFifo 0 env cfg notEmpty s h = None"
| "ClearFifo (Suc fuel) env cfg notEmpty s h =
     (case ReadRegister env cfg (FifoSource cfg) s h of
        (None, s1, h1) \<Rightarrow> Some (True, s1, h1)
      | (Some val, s1, h1) \<Rightarrow>
          if notEmpty val then
            (case ReadRegisters env cfg (OutXL cfg) 6 s1 h1 of
               (ok, s2, h2) \<Rightarrow>
                 if \<not> ok then Some (False, s2, h2)
                 else ClearFifo fuel env cfg notEmpty s2 h2)
          else Some (True, s1, h1))"

text \<open>\<^verbatim>\<open>LIS3DH::StartCollecting\<close>.\<close>

definition StartCollecting ::
  "nat \<Rightarrow> Env \<Rightarrow> LisConfig \<Rightarrow> 8 word \<Rightarrow> LIS3DH_driver \<Rightarrow> Event list
     \<Rightarrow> (bool \<times> LIS3DH_driver \<times> Event list) option" where
  "StartCollecting fuel env cfg axes s h =
     (case ClearFifo fuel env cfg (fifoNotEmpty (accelerometerType s)) s h of
        None \<Rightarrow> None
      | Some (cleared, s1, h1) \<Rightarrow>
          if \<not> cleared then Some (False, s1, h1)
          else
            (let ctrlRegValue =
                   (case accelerometerType s of
                      LIS3DH \<Rightarrow> ctrlReg_0x20 s OR (axes AND 7)
                    | LIS3DSH \<Rightarrow> ctrlReg_0x20 s OR (axes AND 7)
                    | LIS2DW \<Rightarrow> ctrlReg_0x20 s);
                 h2 = pinMode_INPUT_PULLUP (int1Pin s1) h1;
                 s2 = s1\<lparr>totalNumRead := 0\<rparr>;
                 h3 = delayMicroseconds 5 h2
             in case digitalRead env (int1Pin s2) h3 of
                  (level, h4) \<Rightarrow>
                    (let s3 = s2\<lparr>interruptError := level\<rparr>
                     in if interruptError s3 then Some (False, s3, h4)
                        else
                          (case WriteRegister env cfg (Ctrl_0x20 cfg) ctrlRegValue s3 h4 of
                             (ok, s4, h5) \<Rightarrow>
                               if \<not> ok then Some (False, s4, h5)
                               else
                                 (case attachInterrupt env (int1Pin s4) h5 of
                                    (attached, h6) \<Rightarrow> Some (attached, s4, h6))))))"

text \<open>
  \<^verbatim>\<open>LIS3DH::Int1Isr\<close>, the interrupt handler; \<open>now\<close> is \<^verbatim>\<open>StepTimer::GetTimerTicks()\<close>.
\<close>

definition Int1Isr :: "32 word \<Rightarrow> LIS3DH_driver \<Rightarrow> LIS3DH_driver" where
  "Int1Isr now s =
     (let s1 = (if totalNumRead s = 0 then s\<lparr>firstInterruptTime := now\<rparr> else s)
      in s1\<lparr>lastInterruptTime := now, taskWaiting := False\<rparr>)"

text \<open>
  \<^verbatim>\<open>TaskBase::Take()\<close> suspends the task. The handler may run meanwhile, as the environment
  says. The wait loop of \<^verbatim>\<open>CollectData\<close>,
  \<^verbatim>\<open>while (!digitalRead(int1Pin)) { TaskBase::Take(); }\<close>, has no bound of its own and takes
  fuel: \<open>None\<close> says that the task is still waiting after that many rounds.
\<close>

definition TaskBase_Take :: "Env \<Rightarrow> LIS3DH_driver \<Rightarrow> Event list \<Rightarrow> LIS3DH_driver \<times> Event list" where
  "TaskBase_Take env s h =
     (case task_Take env h of
        None \<Rightarrow> (s, h @ [TaskTake None])
      | Some ticks \<Rightarrow> (Int1Isr ticks s, h @ [TaskTake (Some ticks)]))"

fun WaitForInt1 ::
  "nat \<Rightarrow> Env \<Rightarrow> LIS3DH_driver \<Rightarrow> Event list \<Rightarrow> (LIS3DH_driver \<times> Event list) option" where
  "WaitForInt1 0 env s h = None"
| "WaitForInt1 (Suc fuel) env s h =
     (case digitalRead env (int1Pin s) h of
        (level, h1) \<Rightarrow>
          if level then Some (s, h1)
          else (case TaskBase_Take env s h1 of (s1, h2) \<Rightarrow> WaitForInt1 fuel env s1 h2))"

text \<open>
  \<^verbatim>\<open>LIS3DH::CollectData\<close>. The result, when the wait ends: the returned count and the three
  reference parameters \<^verbatim>\<open>collectedData\<close> (the memory it is made to point to), \<^verbatim>\<open>dataRate\<close>
  and \<^verbatim>\<open>overflowed\<close>, which are \<open>None\<close> when the call does not assign them. The data rate
  is a 64-bit division by the \<^verbatim>\<open>uint32_t\<close> difference of the two time stamps, narrowed to
  \<^verbatim>\<open>uint16_t\<close>; dividing by zero is undefined in C++, and is the fault \<open>DivisionByZero\<close>
  here.
\<close>

datatype Fault = DivisionByZero

text \<open>
  The \<^verbatim>\<open>switch\<close> of \<^verbatim>\<open>CollectData\<close> that computes \<^verbatim>\<open>numToRead\<close> from the FIFO status:
  the cases \<^verbatim>\<open>LIS3DH\<close>, \<^verbatim>\<open>LIS3DSH\<close> and \<^verbatim>\<open>default\<close> share one body.
\<close>

definition fifoSamples :: "AccelerometerType \<Rightarrow> 8 word \<Rightarrow> 8 word" where
  "fifoSamples t fifoStatus =
     (case t of
        LIS2DW \<Rightarrow> fifoStatus AND 0x3F
      | _ \<Rightarrow>
          (if fifoStatus AND 0x1F = 0 \<and> fifoStatus AND 0x20 = 0 then 32
           else fifoStatus AND 0x1F))"

definition CollectData ::
  "nat \<Rightarrow> Env \<Rightarrow> LisConfig \<Rightarrow> LIS3DH_driver \<Rightarrow> Event list
     \<Rightarrow> (Fault + 32 word \<times> (bytes \<times> 16 word \<times> bool) option \<times> LIS3DH_driver \<times> Event list) option" where
  "CollectData fuel env cfg s h =
     (case WaitForInt1 fuel env (s\<lparr>taskWaiting := True\<rparr>) h of
        None \<Rightarrow> None
      | Some (s1, h1) \<Rightarrow>
          Some
            (case ReadRegister env cfg (FifoSource cfg) (s1\<lparr>taskWaiting := False\<rparr>) h1 of
               (None, s2, h2) \<Rightarrow> Inr (0, None, s2, h2)
             | (Some fifoStatus, s2, h2) \<Rightarrow>
                 (let numToRead = fifoSamples (accelerometerType s2) fifoStatus
                  in if numToRead \<noteq> 0 then
                       (case ReadRegisters env cfg (OutXL cfg) (6 * unat numToRead) s2 h2 of
                          (ok, s3, h3) \<Rightarrow>
                            if \<not> ok then Inr (0, None, s3, h3)
                            else if totalNumRead s3 \<noteq> 0
                                    \<and> lastInterruptTime s3 - firstInterruptTime s3 = 0
                            then Inl DivisionByZero
                            else
                              (let overflowed = (fifoStatus AND 0x40 \<noteq> 0);
                                   dataRate :: 16 word =
                                     (if totalNumRead s3 = 0 then 0
                                      else ucast
                                        (((ucast (totalNumRead s3) :: 64 word) * ucast (StepClockRate cfg))
                                           div ucast (lastInterruptTime s3 - firstInterruptTime s3)))
                               in Inr (ucast numToRead,
                                       Some (transferBuffer_data s3, dataRate, overflowed),
                                       s3\<lparr>totalNumRead := totalNumRead s3 + ucast numToRead\<rparr>,
                                       h3)))
                     else Inr (ucast numToRead, None, s2, h2))))"

subsection \<open>Example environments\<close>

text \<open>
  Concrete environments at which the theorems below are evaluated. In \<open>env_quiet\<close> the
  mutex and the SPI select are granted, every transfer succeeds and leaves the buffer as it
  was, the interrupt pin reads low and no interrupt arrives. The others change one answer.
\<close>

definition env_quiet :: Env where
  "env_quiet =
     \<lparr>mutex_Take = (\<lambda>h t. True),
      master_Transfer = (\<lambda>h a f b nw nr. (True, b)),
      spi_Select = (\<lambda>h t. True),
      spi_TransceivePacket = (\<lambda>h b n. (True, b)),
      pin_digitalRead = (\<lambda>h p. False),
      pin_attachInterrupt = (\<lambda>h p. True),
      task_Take = (\<lambda>h. None)\<rparr>"

definition env_busy :: Env where
  "env_busy = env_quiet\<lparr>mutex_Take := (\<lambda>h t. False)\<rparr>"

definition env_nak :: Env where
  "env_nak = env_quiet\<lparr>master_Transfer := (\<lambda>h a f b nw nr. (False, b))\<rparr>"

definition env_receiving :: Env where
  "env_receiving =
     env_quiet\<lparr>master_Transfer := (\<lambda>h a f b nw nr. (True, \<lambda>i. if i < nr then 0xAA else b i))\<rparr>"

text \<open>
  In \<open>env_fifo_drains\<close> the device reports the FIFO as not empty at the first status read and
  as empty (bit 5 of the status) from then on; \<open>env_int1_high\<close> is the same with the interrupt
  line stuck high. In \<open>env_watermark\<close> the interrupt line is low at first, the interrupt
  arrives at tick 1000 while the task is suspended, and every read returns bytes of value 24;
  in \<open>env_burst_fails\<close> only reads of one byte succeed.
\<close>

definition env_fifo_drains :: Env where
  "env_fifo_drains =
     env_quiet\<lparr>master_Transfer := (\<lambda>h a f b nw nr. (True, \<lambda>i. if length h < 4 then 0 else 0x20))\<rparr>"

definition env_int1_high :: Env where
  "env_int1_high = env_fifo_drains\<lparr>pin_digitalRead := (\<lambda>h p. True)\<rparr>"

text \<open>
  In \<open>env_status_read_fails\<close> the first bus transfer (the first read of the FIFO status) fails
  and every later one succeeds; the device reports the status 0 (FIFO not empty) whenever it
  is read.
\<close>

definition env_status_read_fails :: Env where
  "env_status_read_fails =
     env_quiet\<lparr>master_Transfer :=
       (\<lambda>h a f b nw nr. (1 < length h, if nr = 0 then b else (\<lambda>i. 0)))\<rparr>"

definition env_watermark :: Env where
  "env_watermark =
     env_quiet\<lparr>master_Transfer := (\<lambda>h a f b nw nr. (True, \<lambda>i. 24)),
               pin_digitalRead := (\<lambda>h p. h \<noteq> []),
               task_Take := (\<lambda>h. Some 1000)\<rparr>"

definition env_burst_fails :: Env where
  "env_burst_fails = env_watermark\<lparr>master_Transfer := (\<lambda>h a f b nw nr. (nr = 1, \<lambda>i. 24))\<rparr>"

text \<open>
  A configuration with the register addresses of the LIS3DH data sheet, and a driver at rest.
\<close>

definition cfg_i2c :: LisConfig where
  "cfg_i2c =
     \<lparr>ACCELEROMETER_USES_SPI = False, FifoSource = 0x2F, OutXL = 0x28, Ctrl_0x20 = 0x20,
      StepClockRate = 750000\<rparr>"

definition cfg_spi :: LisConfig where
  "cfg_spi = cfg_i2c\<lparr>ACCELEROMETER_USES_SPI := True\<rparr>"

definition lis_idle :: LIS3DH_driver where
  "lis_idle =
     \<lparr>address = 0x18, accelerometerType = LIS3DH, int1Pin = 3, ctrlReg_0x20 = 0x90,
      interruptError = False, taskWaiting = False, totalNumRead = 0, firstInterruptTime = 0,
      lastInterruptTime = 0, transferBuffer_reg = 0, transferBuffer_data = (\<lambda>i. 0)\<rparr>"


section \<open>Thermistor\<close>

subsection \<open>Floating-point arithmetic\<close>

text \<open>
  The thermistor code computes with \<^verbatim>\<open>float\<close> and \<^verbatim>\<open>double\<close>. Its arithmetic is a
  parameter: \<open>'f\<close> is the type of the floating-point values and the record gives the
  operations of the target, so what is proved below holds for every arithmetic, with its
  rounding, infinities and NaN. \<open>f_add\<close>, \<open>f_sub\<close>, \<open>f_mul\<close>, \<open>f_div\<close> and \<open>f_log\<close> are the
  \<^verbatim>\<open>double\<close> operations, \<open>f_single\<close> rounds to \<^verbatim>\<open>float\<close> (where an expression of type
  \<^verbatim>\<open>float\<close> is computed or a \<^verbatim>\<open>double\<close> is stored in a \<^verbatim>\<open>float\<close>), \<open>f_logf\<close> is \<^verbatim>\<open>logf\<close>,
  \<open>f_of_int\<close> converts an integer (and gives the literals \<^verbatim>\<open>0.0\<close>, \<^verbatim>\<open>1.0\<close>, \<^verbatim>\<open>10\<close>,
  \<^verbatim>\<open>25.0\<close>, \<^verbatim>\<open>65535.0\<close>), \<open>f_half\<close> is the literal \<^verbatim>\<open>0.5\<close>, \<open>f_le\<close> and \<open>f_lt\<close> are
  \<^verbatim>\<open><=\<close> and \<^verbatim>\<open><\<close> (and \<^verbatim>\<open>a > b\<close> is \<open>f_lt b a\<close>), and \<open>f_to_u16\<close> is
  \<^verbatim>\<open>(uint16_t)rintf(x)\<close>.
\<close>

record 'f FloatOps =
  f_of_int :: "int \<Rightarrow> 'f"
  f_half :: 'f
  f_add :: "'f \<Rightarrow> 'f \<Rightarrow> 'f"
  f_sub :: "'f \<Rightarrow> 'f \<Rightarrow> 'f"
  f_mul :: "'f \<Rightarrow> 'f \<Rightarrow> 'f"
  f_div :: "'f \<Rightarrow> 'f \<Rightarrow> 'f"
  f_single :: "'f \<Rightarrow> 'f"
  f_log :: "'f \<Rightarrow> 'f"
  f_logf :: "'f \<Rightarrow> 'f"
  f_le :: "'f \<Rightarrow> 'f \<Rightarrow> bool"
  f_lt :: "'f \<Rightarrow> 'f \<Rightarrow> bool"
  f_to_u16 :: "'f \<Rightarrow> 16 word"

text \<open>Multiplication and addition of two \<^verbatim>\<open>float\<close> operands, with a \<^verbatim>\<open>float\<close> result.\<close>

definition mulf :: "'f FloatOps \<Rightarrow> 'f \<Rightarrow> 'f \<Rightarrow> 'f" where
  "mulf fp a b = f_single fp (f_mul fp a b)"

definition addf :: "'f FloatOps \<Rightarrow> 'f \<Rightarrow> 'f \<Rightarrow> 'f" where
  "addf fp a b = f_single fp (f_add fp a b)"

definition divf :: "'f FloatOps \<Rightarrow> 'f \<Rightarrow> 'f \<Rightarrow> 'f" where
  "divf fp a b = f_single fp (f_div fp a b)"

subsection \<open>Constants, parameters and state\<close>

text \<open>
  What Thermistor.cpp takes from headers that are not among the sources: the compile-time
  switches \<^verbatim>\<open>HAS_VREF_MONITOR\<close> and \<^verbatim>\<open>DUET_NG\<close>, the constants, the function template
  \<^verbatim>\<open>constrain\<close> and \<^verbatim>\<open>TemperatureSensor::GetPT100Temperature\<close> (its result code and the
  temperature it stores).
\<close>

record 'f ThermistorConsts =
  HAS_VREF_MONITOR :: bool
  DUET_NG :: bool
  AdcOversampleBits :: nat
  AdcRange :: int
  ABS_ZERO :: 'f
  BadErrorTemperature :: 'f
  MinimumConnectedTemperature :: 'f
  constrain :: "'f \<Rightarrow> 'f \<Rightarrow> 'f \<Rightarrow> 'f"
  GetPT100Temperature :: "16 word \<Rightarrow> TemperatureError \<times> 'f"

text \<open>
  An averaging filter as \<^verbatim>\<open>Poll\<close> reads it: \<^verbatim>\<open>IsValid()\<close>, \<^verbatim>\<open>GetSum()\<close> (a
  \<^verbatim>\<open>uint32_t\<close>) and \<^verbatim>\<open>NumAveraged()\<close> (a \<^verbatim>\<open>size_t\<close> of 32 bits).
\<close>

record ThermistorAveragingFilter =
  IsValid :: bool
  GetSum :: "32 word"
  NumAveraged :: "32 word"

text \<open>The fields of \<^verbatim>\<open>class Thermistor\<close>.\<close>

record 'f Thermistor =
  adcFilterChannel :: int
  r25 :: 'f
  beta :: 'f
  shC :: 'f
  seriesR :: 'f
  shA :: 'f
  shB :: 'f
  isPT1000 :: bool
  adcLowOffset :: int
  adcHighOffset :: int

text \<open>
  The parameters of a configuration message. \<^verbatim>\<open>CanMessageGenericParser\<close> is not among the
  sources; by the specification (section 6) a key that is not set leaves the attribute as it
  is, and \<^verbatim>\<open>GetFloatParam\<close> and \<^verbatim>\<open>GetIntValue\<close> return whether the key was there.
\<close>

record 'f Parser =
  floatParam :: "char \<Rightarrow> 'f option"
  intParam :: "char \<Rightarrow> int option"

definition GetFloatParam :: "'f Parser \<Rightarrow> char \<Rightarrow> 'f \<Rightarrow> bool \<times> 'f" where
  "GetFloatParam parser c v = (case floatParam parser c of None \<Rightarrow> (False, v) | Some x \<Rightarrow> (True, x))"

definition GetIntValue :: "'f Parser \<Rightarrow> char \<Rightarrow> int \<Rightarrow> bool \<times> int" where
  "GetIntValue parser c v = (case intParam parser c of None \<Rightarrow> (False, v) | Some x \<Rightarrow> (True, x))"

subsection \<open>Thermistor::CalcDerivedParameters and Thermistor::Configure\<close>

definition CalcDerivedParameters :: "'f FloatOps \<Rightarrow> 'f ThermistorConsts \<Rightarrow> 'f Thermistor \<Rightarrow> 'f Thermistor" where
  "CalcDerivedParameters fp k th =
     (let th1 = th\<lparr>shB := f_single fp (f_div fp (f_of_int fp 1) (beta th))\<rparr>;
          lnR25 = f_logf fp (r25 th1)
      in th1\<lparr>shA :=
           f_single fp
             (f_sub fp
                (f_sub fp (f_div fp (f_of_int fp 1) (f_sub fp (f_of_int fp 25) (ABS_ZERO k)))
                          (mulf fp (shB th1) lnR25))
                (mulf fp (mulf fp (mulf fp (shC th1) lnR25) lnR25) lnR25))\<rparr>)"

datatype GCodeResult = GCodeResult_ok | GCodeResult_error

text \<open>What \<^verbatim>\<open>Configure\<close> appends to \<^verbatim>\<open>reply\<close>: the basic details, then values under their letters.\<close>

datatype 'f ReplyItem = BasicDetails | FloatValue char 'f | IntValue char int

text \<open>
  \<^verbatim>\<open>Thermistor::Configure\<close>. \<open>port\<close> is what \<^verbatim>\<open>ConfigurePort\<close> (of the base class, not among
  the sources) returned and what it left in \<^verbatim>\<open>seen\<close>; \<open>filterIndex\<close> is what
  \<^verbatim>\<open>Platform::GetAveragingFilterIndex(port)\<close> returns. The result is the returned code, the
  sensor, whether the averaging filter was initialised, and the reply.
\<close>

definition Configure ::
  "'f FloatOps \<Rightarrow> 'f ThermistorConsts \<Rightarrow> 'f Parser \<Rightarrow> bool \<times> bool \<Rightarrow> int \<Rightarrow> 'f Thermistor
     \<Rightarrow> GCodeResult \<times> 'f Thermistor \<times> bool \<times> 'f ReplyItem list" where
  "Configure fp k parser port filterIndex th =
     (case port of
        (portOk, seen0) \<Rightarrow>
          if \<not> portOk then (GCodeResult_error, th, False, [])
          else
            (case GetFloatParam parser CHR ''R'' (seriesR th) of
               (gotR, vR) \<Rightarrow>
                 (let th1 = th\<lparr>seriesR := vR\<rparr>;
                      seen1 = (gotR \<or> seen0);
                      (th2, seen2) =
                        (if \<not> isPT1000 th1 then
                           (case GetFloatParam parser CHR ''B'' (beta th1) of
                              (gotB, vB) \<Rightarrow>
                                (let tb = th1\<lparr>beta := vB\<rparr>;
                                     seenB = (gotB \<or> seen1);
                                     tz = (if seenB then tb\<lparr>shC := f_single fp (f_of_int fp 0)\<rparr> else tb)
                                 in case GetFloatParam parser CHR ''C'' (shC tz) of
                                      (gotC, vC) \<Rightarrow>
                                        (let tc = tz\<lparr>shC := vC\<rparr>;
                                             seenC = (gotC \<or> seenB)
                                         in case GetFloatParam parser CHR ''T'' (r25 tc) of
                                              (gotT, vT) \<Rightarrow>
                                                (let tt = tc\<lparr>r25 := vT\<rparr>;
                                                     seenT = (gotT \<or> seenC)
                                                 in (if seenT then CalcDerivedParameters fp k tt else tt,
                                                     seenT)))))
                         else (th1, seen1));
                      (th3, seen3) =
                        (if \<not> HAS_VREF_MONITOR k then
                           (case GetIntValue parser CHR ''L'' (adcLowOffset th2) of
                              (gotL, vL) \<Rightarrow>
                                (case GetIntValue parser CHR ''H'' (adcHighOffset th2) of
                                   (gotH, vH) \<Rightarrow>
                                     (th2\<lparr>adcLowOffset := vL, adcHighOffset := vH\<rparr>,
                                      gotH \<or> (gotL \<or> seen2))))
                         else (th2, seen2))
                  in if seen3 then
                       (GCodeResult_ok, th3\<lparr>adcFilterChannel := filterIndex\<rparr>, 0 \<le> filterIndex, [])
                     else
                       (GCodeResult_ok, th3, False,
                        [BasicDetails]
                        @ (if isPT1000 th3 then [FloatValue CHR ''R'' (seriesR th3)]
                           else [FloatValue CHR ''T'' (r25 th3), FloatValue CHR ''B'' (beta th3),
                                 FloatValue CHR ''C'' (shC th3), FloatValue CHR ''R'' (seriesR th3)])
                        @ (if \<not> HAS_VREF_MONITOR k
                           then [IntValue CHR ''L'' (adcLowOffset th3), IntValue CHR ''H'' (adcHighOffset th3)]
                           else [])))))"

subsection \<open>Thermistor::Poll\<close>

text \<open>
  An averaged reading, \<^verbatim>\<open>sumFilter.GetSum()/(countFilter.NumAveraged() >> AdcOversampleBits)\<close>:
  an unsigned 32-bit division whose quotient is stored in an \<^verbatim>\<open>int32_t\<close>. A zero divisor is
  undefined in C++ and is the fault \<open>DivisionByZero\<close> here. The differences of readings are
  taken in \<open>int\<close>: they are \<^verbatim>\<open>int32_t\<close> in the code, where they fit for sums of ADC counts.
\<close>

definition averagedReading ::
  "nat \<Rightarrow> ThermistorAveragingFilter \<Rightarrow> ThermistorAveragingFilter \<Rightarrow> Fault + int" where
  "averagedReading bits sumFilter countFilter =
     (if drop_bit bits (NumAveraged countFilter) = 0 then Inl DivisionByZero
      else Inr (sint (GetSum sumFilter div drop_bit bits (NumAveraged countFilter))))"

text \<open>The call of \<^verbatim>\<open>SetResult\<close> that \<^verbatim>\<open>Poll\<close> ends with: with a value, or with a code only.\<close>

datatype 'f SetResultCall = SetResult_value 'f TemperatureError | SetResult_error TemperatureError

text \<open>
  The first part of \<^verbatim>\<open>Poll\<close>, up to the three averaged readings (reference, ground,
  thermistor): either an early \<^verbatim>\<open>SetResult\<close> (filter not ready, bad reference, bad ground)
  or the readings. Without a reference monitor the reference and ground readings are computed
  from the configured offsets.
\<close>

definition Poll_readings ::
  "'f ThermistorConsts \<Rightarrow> 'f Thermistor \<Rightarrow> ThermistorAveragingFilter \<Rightarrow> ThermistorAveragingFilter
     \<Rightarrow> ThermistorAveragingFilter \<Rightarrow> Fault + ('f SetResultCall + int \<times> int \<times> int)" where
  "Poll_readings k th tempFilter vrefFilter vssaFilter =
     (if HAS_VREF_MONITOR k then
        (if IsValid tempFilter \<and> IsValid vrefFilter \<and> IsValid vssaFilter then
           (case averagedReading (AdcOversampleBits k) vssaFilter vssaFilter of
              Inl fault \<Rightarrow> Inl fault
            | Inr averagedVssaReading \<Rightarrow>
                (case averagedReading (AdcOversampleBits k) vrefFilter vssaFilter of
                   Inl fault \<Rightarrow> Inl fault
                 | Inr averagedVrefReading \<Rightarrow>
                     (let maxDrop = (4096 * 2 ^ AdcOversampleBits k * 15) div 492
                                      + 100 * 2 ^ AdcOversampleBits k
                      in if averagedVrefReading < 4096 * 2 ^ AdcOversampleBits k - maxDrop
                         then Inr (Inl (SetResult_error badVref))
                         else if averagedVssaReading > maxDrop
                         then Inr (Inl (SetResult_error badVssa))
                         else
                           (case averagedReading (AdcOversampleBits k) tempFilter tempFilter of
                              Inl fault \<Rightarrow> Inl fault
                            | Inr averagedTempReading \<Rightarrow>
                                Inr (Inr (averagedVrefReading, averagedVssaReading,
                                          averagedTempReading))))))
         else Inr (Inl (SetResult_error notReady)))
      else
        (if IsValid tempFilter then
           (case averagedReading (AdcOversampleBits k) tempFilter tempFilter of
              Inl fault \<Rightarrow> Inl fault
            | Inr averagedTempReading \<Rightarrow>
                Inr (Inr (AdcRange k + 2 * adcHighOffset th, 2 * adcLowOffset th,
                          averagedTempReading)))
         else Inr (Inl (SetResult_error notReady))))"

text \<open>The local variables \<^verbatim>\<open>denom\<close> and \<^verbatim>\<open>resistance\<close> of \<^verbatim>\<open>Poll\<close>.\<close>

definition Poll_denom :: "'f FloatOps \<Rightarrow> 'f ThermistorConsts \<Rightarrow> int \<Rightarrow> int \<Rightarrow> 'f" where
  "Poll_denom fp k averagedVrefReading averagedTempReading =
     (if HAS_VREF_MONITOR k then f_of_int fp (averagedVrefReading - averagedTempReading)
      else f_single fp
             (f_sub fp (f_of_int fp (averagedVrefReading - averagedTempReading)) (f_half fp)))"

definition Poll_resistance ::
  "'f FloatOps \<Rightarrow> 'f ThermistorConsts \<Rightarrow> 'f Thermistor \<Rightarrow> int \<Rightarrow> int \<Rightarrow> 'f \<Rightarrow> 'f" where
  "Poll_resistance fp k th averagedVssaReading averagedTempReading denom =
     (if HAS_VREF_MONITOR k then
        divf fp (mulf fp (seriesR th) (f_of_int fp (averagedTempReading - averagedVssaReading))) denom
      else
        (let resistance =
               f_single fp
                 (f_div fp
                    (f_mul fp (seriesR th)
                       (f_add fp (f_of_int fp (averagedTempReading - averagedVssaReading)) (f_half fp)))
                    denom)
         in if DUET_NG k then f_single fp (f_sub fp resistance (f_of_int fp 1)) else resistance))"

text \<open>
  The local variable \<^verbatim>\<open>temp\<close> of the thermistor branch: the Steinhart-Hart form
  \<^verbatim>\<open>1/T = shA + shB ln R + shC (ln R)^3\<close>, in Celsius, or \<^verbatim>\<open>BadErrorTemperature\<close> when
  \<^verbatim>\<open>recipT > 0.0\<close> does not hold.
\<close>

definition Poll_temp :: "'f FloatOps \<Rightarrow> 'f ThermistorConsts \<Rightarrow> 'f Thermistor \<Rightarrow> 'f \<Rightarrow> 'f" where
  "Poll_temp fp k th resistance =
     (let logResistance = f_single fp (f_log fp resistance);
          recipT = addf fp (addf fp (shA th) (mulf fp (shB th) logResistance))
                     (mulf fp (mulf fp (mulf fp (shC th) logResistance) logResistance) logResistance)
      in f_single fp
           (if f_lt fp (f_of_int fp 0) recipT
            then f_add fp (f_div fp (f_of_int fp 1) recipT) (ABS_ZERO k)
            else BadErrorTemperature k))"

text \<open>The second part of \<^verbatim>\<open>Poll\<close>: from the three readings to the call of \<^verbatim>\<open>SetResult\<close>.\<close>

definition Poll_convert ::
  "'f FloatOps \<Rightarrow> 'f ThermistorConsts \<Rightarrow> 'f Thermistor \<Rightarrow> int \<times> int \<times> int \<Rightarrow> 'f SetResultCall" where
  "Poll_convert fp k th readings =
     (case readings of
        (averagedVrefReading, averagedVssaReading, averagedTempReading) \<Rightarrow>
          (let denom = Poll_denom fp k averagedVrefReading averagedTempReading
           in if f_le fp denom (f_of_int fp 0) then SetResult_value (ABS_ZERO k) openCircuit
              else
                (let resistance = Poll_resistance fp k th averagedVssaReading averagedTempReading denom
                 in if isPT1000 th then
                      (let ohmsx100 =
                             f_to_u16 fp
                               (constrain k (mulf fp resistance (f_of_int fp 10)) (f_of_int fp 0)
                                  (f_of_int fp 65535))
                       in case GetPT100Temperature k ohmsx100 of
                            (sts, t) \<Rightarrow> SetResult_value t sts)
                    else
                      (let temp = Poll_temp fp k th resistance
                       in if f_lt fp temp (MinimumConnectedTemperature k)
                          then SetResult_value (ABS_ZERO k) openCircuit
                          else SetResult_value temp success))))"

definition Poll ::
  "'f FloatOps \<Rightarrow> 'f ThermistorConsts \<Rightarrow> 'f Thermistor \<Rightarrow> ThermistorAveragingFilter
     \<Rightarrow> ThermistorAveragingFilter \<Rightarrow> ThermistorAveragingFilter \<Rightarrow> Fault + 'f SetResultCall" where
  "Poll fp k th tempFilter vrefFilter vssaFilter =
     (case Poll_readings k th tempFilter vrefFilter vssaFilter of
        Inl fault \<Rightarrow> Inl fault
      | Inr (Inl call) \<Rightarrow> Inr call
      | Inr (Inr readings) \<Rightarrow> Inr (Poll_convert fp k th readings))"

subsection \<open>The formulas of the specification\<close>



subsection \<open>Example arithmetic and sensor\<close>

text \<open>
  The arithmetic of the real numbers, without rounding, and the constants of the firmware
  for a board with a reference monitor, to evaluate the definitions at concrete inputs.
\<close>

definition real_ops :: "real FloatOps" where
  "real_ops =
     \<lparr>f_of_int = of_int, f_half = 1 / 2, f_add = (+), f_sub = (-), f_mul = (*), f_div = (/),
      f_single = (\<lambda>x. x), f_log = ln, f_logf = ln, f_le = (\<le>), f_lt = (<),
      f_to_u16 = (\<lambda>x. word_of_int (round x))\<rparr>"

definition consts_vref :: "real ThermistorConsts" where
  "consts_vref =
     \<lparr>HAS_VREF_MONITOR = True, DUET_NG = False, AdcOversampleBits = 2, AdcRange = 16384,
      ABS_ZERO = - 273.15, BadErrorTemperature = 2000, MinimumConnectedTemperature = - 5,
      constrain = (\<lambda>v lo hi. if v < lo then lo else if hi < v then hi else v),
      GetPT100Temperature = (\<lambda>ohmsx100. (success, 0))\<rparr>"

definition thermistor_example :: "real Thermistor" where
  "thermistor_example =
     \<lparr>adcFilterChannel = 0, r25 = 100000, beta = 4725, shC = 7.06 / 10 ^ 8, seriesR = 1,
      shA = 1, shB = 1 / 4725, isPT1000 = False, adcLowOffset = 0, adcHighOffset = 0\<rparr>"





section \<open>Theorems\<close>

subsection \<open>TemperatureSensor\<close>

text \<open>
  C1. A call of \<^verbatim>\<open>SetResult\<close> with the code \<^verbatim>\<open>success\<close> or \<^verbatim>\<open>notReady\<close> leaves the
  sticky last-error field (\<^verbatim>\<open>lastRealError\<close>, read by \<^verbatim>\<open>GetLastError\<close>) as it was; a call
  with any other code sets it to that code; every call sets the last-result field to the
  code. This holds for both overloads.
\<close>

theorem SetResult_sticky_error:
  "(rslt = success \<or> rslt = notReady \<longrightarrow>
      GetLastError (SetResult now t rslt s) = GetLastError s
      \<and> GetLastError (SetResult_code rslt s) = GetLastError s)
   \<and> (rslt \<noteq> success \<and> rslt \<noteq> notReady \<longrightarrow>
      GetLastError (SetResult now t rslt s) = rslt
      \<and> GetLastError (SetResult_code rslt s) = rslt)
   \<and> lastResult (SetResult now t rslt s) = rslt
   \<and> lastResult (SetResult_code rslt s) = rslt"
  by (simp add: SetResult_def SetResult_code_def GetLastError_def Let_def)

theorem SetResult_sticky_error_witness:
  "GetLastError (SetResult 7 (25::int) success
      \<lparr>sensorNumber = 0, sensorType = ''Thermistor'', lastTemperature = 0, whenLastRead = 0,
       lastResult = openCircuit, lastRealError = openCircuit\<rparr>) = openCircuit
   \<and> GetLastError (SetResult_code notReady
      \<lparr>sensorNumber = 0, sensorType = ''Thermistor'', lastTemperature = (0::int), whenLastRead = 0,
       lastResult = openCircuit, lastRealError = openCircuit\<rparr>) = openCircuit
   \<and> GetLastError (SetResult 7 (25::int) badVref
      \<lparr>sensorNumber = 0, sensorType = ''Thermistor'', lastTemperature = 0, whenLastRead = 0,
       lastResult = openCircuit, lastRealError = openCircuit\<rparr>) = badVref"
  using SetResult_sticky_error [of success 7 "25::int"
          "\<lparr>sensorNumber = 0, sensorType = ''Thermistor'', lastTemperature = 0, whenLastRead = 0,
            lastResult = openCircuit, lastRealError = openCircuit\<rparr>"]
        SetResult_sticky_error [of notReady 7 "25::int"
          "\<lparr>sensorNumber = 0, sensorType = ''Thermistor'', lastTemperature = 0, whenLastRead = 0,
            lastResult = openCircuit, lastRealError = openCircuit\<rparr>"]
        SetResult_sticky_error [of badVref 7 "25::int"
          "\<lparr>sensorNumber = 0, sensorType = ''Thermistor'', lastTemperature = 0, whenLastRead = 0,
            lastResult = openCircuit, lastRealError = openCircuit\<rparr>"]
  by (simp add: GetLastError_def)

lemma whenLastRead_SetResult:
  "whenLastRead (SetResult now t rslt s) = (if rslt = success then now else whenLastRead s)"
  by (simp add: SetResult_def Let_def)

lemma whenLastRead_SetResult_code: "whenLastRead (SetResult_code rslt s) = whenLastRead s"
  by (simp add: SetResult_code_def Let_def)

text \<open>
  C2. When more than 2000 ms (\<^verbatim>\<open>TemperatureReadingTimeout\<close>) have passed on the
  \<^verbatim>\<open>uint32_t\<close> millisecond clock since \<^verbatim>\<open>whenLastRead\<close>, the time of the last successful
  \<^verbatim>\<open>SetResult\<close>, \<^verbatim>\<open>GetLatestTemperature\<close> returns the stale/timeout code \<open>stale\<close> and no cached
  value, whatever the sensor's cached value and last result are. In particular this is so
  after a successful \<^verbatim>\<open>SetResult\<close> at time \<open>t0\<close> of any value \<open>v\<close>.
\<close>

theorem GetLatestTemperature_stale:
  "(2000 < now - whenLastRead s \<longrightarrow> GetLatestTemperature now s = (stale, None))
   \<and> (2000 < now - t0 \<longrightarrow> GetLatestTemperature now (SetResult t0 v success s') = (stale, None))"
  by (simp add: GetLatestTemperature_def TemperatureReadingTimeout_def whenLastRead_SetResult)

theorem GetLatestTemperature_stale_witness:
  "(2000 :: 32 word) < 5001 - 3000
   \<and> GetLatestTemperature 5001 (SetResult 3000 (25::int) success
        \<lparr>sensorNumber = 0, sensorType = ''Thermistor'', lastTemperature = 0, whenLastRead = 0,
         lastResult = notReady, lastRealError = success\<rparr>) = (stale, None)
   \<and> GetLatestTemperature 5000 (SetResult 3000 (25::int) success
        \<lparr>sensorNumber = 0, sensorType = ''Thermistor'', lastTemperature = 0, whenLastRead = 0,
         lastResult = notReady, lastRealError = success\<rparr>) = (success, Some 25)"
  using GetLatestTemperature_stale [where now = 5001 and ?t0.0 = 3000 and v = "25::int"
          and s = "SetResult 3000 (25::int) success
            \<lparr>sensorNumber = 0, sensorType = ''Thermistor'', lastTemperature = 0, whenLastRead = 0,
             lastResult = notReady, lastRealError = success\<rparr>"
          and s' = "\<lparr>sensorNumber = 0, sensorType = ''Thermistor'', lastTemperature = 0, whenLastRead = 0,
             lastResult = notReady, lastRealError = success\<rparr>"]
  by (simp add: GetLatestTemperature_def TemperatureReadingTimeout_def SetResult_def)

subsection \<open>SharedI2CClient::Transfer\<close>

lemma Transfer_not_taken:
  "\<not> mutex_Take env h timeout \<Longrightarrow>
     Transfer env client buffer numToWrite numToRead timeout h
       = ((False, buffer), h @ [MutexTake timeout False])"
  by (simp add: Transfer_def Take_def)

lemma Transfer_taken:
  "mutex_Take env h timeout \<Longrightarrow>
     Transfer env client buffer numToWrite numToRead timeout h
       = (case master_Transfer env (h @ [MutexTake timeout True]) (address client) (buffer 0)
                 (\<lambda>i. buffer (Suc i)) numToWrite numToRead of
            (ret, rest) \<Rightarrow>
              ((ret, (\<lambda>i. case i of 0 \<Rightarrow> buffer 0 | Suc j \<Rightarrow> rest j)),
               h @ [MutexTake timeout True,
                    MasterTransfer (address client) (buffer 0) (\<lambda>i. buffer (Suc i)) numToWrite numToRead ret,
                    MutexRelease]))"
  by (simp add: Transfer_def Take_def SharedI2CMaster_Transfer_def Release_def split: prod.splits)

text \<open>
  C3. If the mutex of the bus master is not acquired within the timeout,
  \<^verbatim>\<open>SharedI2CClient::Transfer\<close> returns false and the only event is the failed attempt to
  take the mutex: no bus transfer, and the buffer is as it was. Otherwise the events are the
  taking of the mutex, exactly one \<^verbatim>\<open>SharedI2CMaster::Transfer\<close> with the client's address,
  and the release of the mutex, whatever the transfer returned; the call returns what the
  transfer returned.
\<close>

theorem Transfer_mutex_bracket:
  "(\<not> mutex_Take env h timeout \<longrightarrow>
      Transfer env client buffer numToWrite numToRead timeout h
        = ((False, buffer), h @ [MutexTake timeout False]))
   \<and> (mutex_Take env h timeout \<longrightarrow>
      fst (fst (Transfer env client buffer numToWrite numToRead timeout h))
        = fst (master_Transfer env (h @ [MutexTake timeout True]) (address client) (buffer 0)
                 (\<lambda>i. buffer (Suc i)) numToWrite numToRead)
      \<and> snd (Transfer env client buffer numToWrite numToRead timeout h)
        = h @ [MutexTake timeout True,
               MasterTransfer (address client) (buffer 0) (\<lambda>i. buffer (Suc i)) numToWrite numToRead
                 (fst (master_Transfer env (h @ [MutexTake timeout True]) (address client) (buffer 0)
                         (\<lambda>i. buffer (Suc i)) numToWrite numToRead)),
               MutexRelease])"
  by (simp add: Transfer_not_taken Transfer_taken split: prod.splits)

theorem Transfer_mutex_bracket_witness:
  "Transfer env_busy \<lparr>address = 0x18\<rparr> (\<lambda>i. 0) 1 6 25 [] = ((False, \<lambda>i. 0), [MutexTake 25 False])
   \<and> fst (fst (Transfer env_nak \<lparr>address = 0x18\<rparr> (\<lambda>i. 0) 1 6 25 [])) = False
   \<and> snd (Transfer env_nak \<lparr>address = 0x18\<rparr> (\<lambda>i. 0) 1 6 25 [])
       = [MutexTake 25 True, MasterTransfer 0x18 0 (\<lambda>i. 0) 1 6 False, MutexRelease]
   \<and> fst (fst (Transfer env_quiet \<lparr>address = 0x18\<rparr> (\<lambda>i. 0) 1 6 25 [])) = True
   \<and> snd (Transfer env_quiet \<lparr>address = 0x18\<rparr> (\<lambda>i. 0) 1 6 25 [])
       = [MutexTake 25 True, MasterTransfer 0x18 0 (\<lambda>i. 0) 1 6 True, MutexRelease]"
  using Transfer_mutex_bracket [of env_busy "[]" 25 "\<lparr>address = 0x18\<rparr>" "\<lambda>i. 0" 1 6]
        Transfer_mutex_bracket [of env_nak "[]" 25 "\<lparr>address = 0x18\<rparr>" "\<lambda>i. 0" 1 6]
        Transfer_mutex_bracket [of env_quiet "[]" 25 "\<lparr>address = 0x18\<rparr>" "\<lambda>i. 0" 1 6]
  by (simp add: env_busy_def env_nak_def env_quiet_def)

text \<open>
  C9. Whenever \<^verbatim>\<open>SharedI2CClient::Transfer\<close> acquires the bus, for every \<^verbatim>\<open>numToWrite\<close>
  (0 included) and \<^verbatim>\<open>numToRead\<close>, the one call of the bus master has \<^verbatim>\<open>buffer[0]\<close> as its
  first byte and the memory from \<^verbatim>\<open>buffer + 1\<close> on as its buffer. After the call
  \<^verbatim>\<open>buffer[0]\<close> is what it was, and \<^verbatim>\<open>buffer[i + 1]\<close> is byte \<open>i\<close> of what the master left
  in its buffer: bytes the master stores from the start of its buffer are at \<^verbatim>\<open>buffer[1]\<close>
  and after.
\<close>

theorem Transfer_first_byte:
  "mutex_Take env h timeout \<longrightarrow>
     MasterTransfer (address client) (buffer 0) (\<lambda>i. buffer (Suc i)) numToWrite numToRead
         (fst (master_Transfer env (h @ [MutexTake timeout True]) (address client) (buffer 0)
                 (\<lambda>i. buffer (Suc i)) numToWrite numToRead))
       \<in> set (snd (Transfer env client buffer numToWrite numToRead timeout h))
     \<and> snd (fst (Transfer env client buffer numToWrite numToRead timeout h)) 0 = buffer 0
     \<and> (\<forall>i. snd (fst (Transfer env client buffer numToWrite numToRead timeout h)) (Suc i)
            = snd (master_Transfer env (h @ [MutexTake timeout True]) (address client) (buffer 0)
                 (\<lambda>i. buffer (Suc i)) numToWrite numToRead) i)"
  by (simp add: Transfer_taken split: prod.splits)

theorem Transfer_first_byte_witness:
  "MasterTransfer 0x18 0x55 (\<lambda>i. 0x55) 0 2 True
       \<in> set (snd (Transfer env_receiving \<lparr>address = 0x18\<rparr> (\<lambda>i. 0x55) 0 2 25 []))
   \<and> snd (fst (Transfer env_receiving \<lparr>address = 0x18\<rparr> (\<lambda>i. 0x55) 0 2 25 [])) 0 = 0x55
   \<and> snd (fst (Transfer env_receiving \<lparr>address = 0x18\<rparr> (\<lambda>i. 0x55) 0 2 25 [])) 1 = 0xAA
   \<and> snd (fst (Transfer env_receiving \<lparr>address = 0x18\<rparr> (\<lambda>i. 0x55) 0 2 25 [])) 2 = 0xAA
   \<and> snd (fst (Transfer env_receiving \<lparr>address = 0x18\<rparr> (\<lambda>i. 0x55) 0 2 25 [])) 3 = 0x55"
proof -
  from Transfer_first_byte [of env_receiving "[]" 25 "\<lparr>address = 0x18\<rparr>" "\<lambda>i. 0x55" 0 2]
  have ev: "MasterTransfer 0x18 0x55 (\<lambda>i. 0x55) 0 2 True
              \<in> set (snd (Transfer env_receiving \<lparr>address = 0x18\<rparr> (\<lambda>i. 0x55) 0 2 25 []))"
    and b0: "snd (fst (Transfer env_receiving \<lparr>address = 0x18\<rparr> (\<lambda>i. 0x55) 0 2 25 [])) 0 = 0x55"
    and bs: "\<And>i. snd (fst (Transfer env_receiving \<lparr>address = 0x18\<rparr> (\<lambda>i. 0x55) 0 2 25 [])) (Suc i)
               = (if i < 2 then 0xAA else 0x55)"
    by (simp_all add: env_receiving_def env_quiet_def)
  from bs [of 0] bs [of 1] bs [of 2] ev b0 show ?thesis
    by (simp add: numeral_2_eq_2 numeral_3_eq_3)
qed

subsection \<open>LIS3DH register access\<close>

lemmas bus_eval_defs =
  ReadRegister_def ReadRegisters_def Transfer_def Take_def SharedI2CMaster_Transfer_def
  Release_def Select_def TransceivePacket_def Deselect_def transferBuffer_ptr_def
  transferBuffer_store_def delayMicroseconds_def digitalRead_def Lis3dI2CTimeout_def
  Lis3dSpiTimeout_def Let_def

lemma WriteRegisters_reserved:
  "reg < 0x1E \<Longrightarrow> WriteRegisters env cfg reg numToWrite s h = (False, s, h)"
  by (simp add: WriteRegisters_def)

lemma WriteRegisters_i2c:
  "\<not> reg < 0x1E \<Longrightarrow> \<not> ACCELEROMETER_USES_SPI cfg \<Longrightarrow>
     fst (WriteRegisters env cfg reg numToWrite s h)
       = (mutex_Take env h Lis3dI2CTimeout
          \<and> fst (master_Transfer env (h @ [MutexTake Lis3dI2CTimeout True]) (address s)
                  (if numToWrite < 2 \<or> accelerometerType s \<noteq> LIS3DH then reg else reg OR 0x80)
                  (transferBuffer_data s) (1 + numToWrite) 0))
     \<and> take (Suc (length h)) (snd (snd (WriteRegisters env cfg reg numToWrite s h)))
       = h @ [MutexTake Lis3dI2CTimeout (mutex_Take env h Lis3dI2CTimeout)]"
  by (cases "mutex_Take env h Lis3dI2CTimeout")
     (simp_all add: WriteRegisters_def Let_def Transfer_not_taken Transfer_taken transferBuffer_ptr_def
        split: prod.splits)

lemma WriteRegisters_spi:
  "\<not> reg < 0x1E \<Longrightarrow> ACCELEROMETER_USES_SPI cfg \<Longrightarrow>
     fst (WriteRegisters env cfg reg numToWrite s h)
       = (spi_Select env h Lis3dSpiTimeout
          \<and> fst (spi_TransceivePacket env (h @ [SpiSelect Lis3dSpiTimeout True])
                  (transferBuffer_ptr (s\<lparr>transferBuffer_reg :=
                      (if numToWrite < 2 \<or> accelerometerType s \<noteq> LIS3DH then reg else reg OR 0x40)\<rparr>))
                  (1 + numToWrite)))
     \<and> take (Suc (length h)) (snd (snd (WriteRegisters env cfg reg numToWrite s h)))
       = h @ [SpiSelect Lis3dSpiTimeout (spi_Select env h Lis3dSpiTimeout)]"
  by (cases "spi_Select env h Lis3dSpiTimeout")
     (simp_all add: WriteRegisters_def Let_def Select_def TransceivePacket_def Deselect_def
        split: prod.splits)

text \<open>
  C8. For a register address below \<open>0x1E\<close>, \<^verbatim>\<open>LIS3DH::WriteRegisters\<close> returns false,
  with no event (no bus is taken, no transfer made) and the driver as it was; so does
  \<^verbatim>\<open>WriteRegister\<close>, which only puts the value into the driver's own buffer first. For an
  address from \<open>0x1E\<close> on the guard lets the write through: the next event is the attempt to
  take the bus (the mutex of the I2C master, or the SPI select), and the call returns true
  exactly when the bus is taken and the one transfer with the register byte and
  \<open>1 + numToWrite\<close> bytes succeeds.
\<close>

theorem WriteRegisters_reserved_guard:
  "(reg < 0x1E \<longrightarrow>
      WriteRegisters env cfg reg numToWrite s h = (False, s, h)
      \<and> WriteRegister env cfg reg val s h
          = (False, s\<lparr>transferBuffer_data := (transferBuffer_data s)(0 := val)\<rparr>, h))
   \<and> (0x1E \<le> reg \<longrightarrow>
      take (Suc (length h)) (snd (snd (WriteRegisters env cfg reg numToWrite s h)))
        = h @ [if ACCELEROMETER_USES_SPI cfg
               then SpiSelect Lis3dSpiTimeout (spi_Select env h Lis3dSpiTimeout)
               else MutexTake Lis3dI2CTimeout (mutex_Take env h Lis3dI2CTimeout)]
      \<and> fst (WriteRegisters env cfg reg numToWrite s h)
        = (if ACCELEROMETER_USES_SPI cfg
           then spi_Select env h Lis3dSpiTimeout
                \<and> fst (spi_TransceivePacket env (h @ [SpiSelect Lis3dSpiTimeout True])
                        (transferBuffer_ptr (s\<lparr>transferBuffer_reg :=
                           (if numToWrite < 2 \<or> accelerometerType s \<noteq> LIS3DH then reg
                            else reg OR 0x40)\<rparr>))
                        (1 + numToWrite))
           else mutex_Take env h Lis3dI2CTimeout
                \<and> fst (master_Transfer env (h @ [MutexTake Lis3dI2CTimeout True]) (address s)
                        (if numToWrite < 2 \<or> accelerometerType s \<noteq> LIS3DH then reg
                         else reg OR 0x80)
                        (transferBuffer_data s) (1 + numToWrite) 0)))"
proof (intro conjI impI)
  assume low: "reg < 0x1E"
  then show "WriteRegisters env cfg reg numToWrite s h = (False, s, h)"
    by (rule WriteRegisters_reserved)
  from low show "WriteRegister env cfg reg val s h
      = (False, s\<lparr>transferBuffer_data := (transferBuffer_data s)(0 := val)\<rparr>, h)"
    by (simp add: WriteRegister_def WriteRegisters_reserved)
next
  assume "0x1E \<le> reg"
  then have high: "\<not> reg < 0x1E"
    by (simp add: not_less)
  show "take (Suc (length h)) (snd (snd (WriteRegisters env cfg reg numToWrite s h)))
        = h @ [if ACCELEROMETER_USES_SPI cfg
               then SpiSelect Lis3dSpiTimeout (spi_Select env h Lis3dSpiTimeout)
               else MutexTake Lis3dI2CTimeout (mutex_Take env h Lis3dI2CTimeout)]"
    using WriteRegisters_i2c [OF high, of cfg env numToWrite s h]
          WriteRegisters_spi [OF high, of cfg env numToWrite s h]
    by (cases "ACCELEROMETER_USES_SPI cfg") simp_all
next
  assume "0x1E \<le> reg"
  then have high: "\<not> reg < 0x1E"
    by (simp add: not_less)
  show "fst (WriteRegisters env cfg reg numToWrite s h)
        = (if ACCELEROMETER_USES_SPI cfg
           then spi_Select env h Lis3dSpiTimeout
                \<and> fst (spi_TransceivePacket env (h @ [SpiSelect Lis3dSpiTimeout True])
                        (transferBuffer_ptr (s\<lparr>transferBuffer_reg :=
                           (if numToWrite < 2 \<or> accelerometerType s \<noteq> LIS3DH then reg
                            else reg OR 0x40)\<rparr>))
                        (1 + numToWrite))
           else mutex_Take env h Lis3dI2CTimeout
                \<and> fst (master_Transfer env (h @ [MutexTake Lis3dI2CTimeout True]) (address s)
                        (if numToWrite < 2 \<or> accelerometerType s \<noteq> LIS3DH then reg
                         else reg OR 0x80)
                        (transferBuffer_data s) (1 + numToWrite) 0))"
    using WriteRegisters_i2c [OF high, of cfg env numToWrite s h]
          WriteRegisters_spi [OF high, of cfg env numToWrite s h]
    by (cases "ACCELEROMETER_USES_SPI cfg") simp_all
qed

theorem WriteRegisters_reserved_guard_witness:
  "WriteRegisters env_quiet cfg_i2c 0x1D 6 lis_idle [] = (False, lis_idle, [])
   \<and> fst (WriteRegister env_quiet cfg_spi 0x0F 0x77 lis_idle []) = False
   \<and> snd (snd (WriteRegister env_quiet cfg_spi 0x0F 0x77 lis_idle [])) = []
   \<and> take 1 (snd (snd (WriteRegisters env_quiet cfg_i2c 0x1E 6 lis_idle []))) = [MutexTake 25 True]
   \<and> fst (WriteRegisters env_quiet cfg_i2c 0x1E 6 lis_idle [])
   \<and> take 1 (snd (snd (WriteRegisters env_quiet cfg_spi 0x20 1 lis_idle []))) = [SpiSelect 25 True]
   \<and> fst (WriteRegisters env_quiet cfg_spi 0x20 1 lis_idle [])"
  using WriteRegisters_reserved_guard [of "0x1D" env_quiet cfg_i2c 6 lis_idle "[]" "0x77"]
        WriteRegisters_reserved_guard [of "0x0F" env_quiet cfg_spi 6 lis_idle "[]" "0x77"]
        WriteRegisters_reserved_guard [of "0x1E" env_quiet cfg_i2c 6 lis_idle "[]" "0x77"]
        WriteRegisters_reserved_guard [of "0x20" env_quiet cfg_spi 1 lis_idle "[]" "0x77"]
  by (simp add: env_quiet_def cfg_i2c_def cfg_spi_def Lis3dI2CTimeout_def Lis3dSpiTimeout_def)

subsection \<open>LIS3DH::StartCollecting\<close>

lemma WriteRegisters_frame:
  "WriteRegisters env cfg reg n s h = (ok, s', h') \<Longrightarrow>
     interruptError s' = interruptError s \<and> totalNumRead s' = totalNumRead s
     \<and> int1Pin s' = int1Pin s \<and> accelerometerType s' = accelerometerType s
     \<and> (\<exists>evs. h' = h @ evs)"
  by (auto simp: WriteRegisters_def Let_def Select_def TransceivePacket_def Deselect_def
        Transfer_def Take_def SharedI2CMaster_Transfer_def Release_def transferBuffer_store_def
      split: if_splits prod.splits)

lemma WriteRegister_frame:
  "WriteRegister env cfg reg val s h = (ok, s', h') \<Longrightarrow>
     interruptError s' = interruptError s \<and> totalNumRead s' = totalNumRead s
     \<and> int1Pin s' = int1Pin s \<and> accelerometerType s' = accelerometerType s
     \<and> (\<exists>evs. h' = h @ evs)"
  unfolding WriteRegister_def by (drule WriteRegisters_frame) simp

lemma StartCollecting_line_high:
  assumes "ClearFifo fuel env cfg (fifoNotEmpty (accelerometerType s)) s h = Some (True, s1, h1)"
    and "pin_digitalRead env (h1 @ [PinModeInputPullup (int1Pin s1), DelayMicroseconds 5]) (int1Pin s1)"
  shows "StartCollecting fuel env cfg axes s h
        = Some (False, s1\<lparr>totalNumRead := 0, interruptError := True\<rparr>,
                h1 @ [PinModeInputPullup (int1Pin s1), DelayMicroseconds 5,
                      DigitalRead (int1Pin s1) True])"
  using assms
  by (simp add: StartCollecting_def Let_def pinMode_INPUT_PULLUP_def delayMicroseconds_def
        digitalRead_def)

lemma StartCollecting_true_line_low:
  assumes "ClearFifo fuel env cfg (fifoNotEmpty (accelerometerType s)) s h = Some (True, s1, h1)"
    and "StartCollecting fuel env cfg axes s h = Some (True, s', h')"
  shows "\<not> pin_digitalRead env (h1 @ [PinModeInputPullup (int1Pin s1), DelayMicroseconds 5]) (int1Pin s1)
     \<and> \<not> interruptError s'
     \<and> DigitalRead (int1Pin s1) False \<in> set h'"
proof -
  let ?h3 = "h1 @ [PinModeInputPullup (int1Pin s1), DelayMicroseconds 5]"
  have low: "\<not> pin_digitalRead env ?h3 (int1Pin s1)"
    using assms StartCollecting_line_high [OF assms(1), of axes] by auto
  obtain ok s4 h5 where w: "WriteRegister env cfg (Ctrl_0x20 cfg)
        (case accelerometerType s of
           LIS3DH \<Rightarrow> ctrlReg_0x20 s OR (axes AND 7)
         | LIS3DSH \<Rightarrow> ctrlReg_0x20 s OR (axes AND 7)
         | LIS2DW \<Rightarrow> ctrlReg_0x20 s)
        (s1\<lparr>totalNumRead := 0, interruptError := False\<rparr>)
        (?h3 @ [DigitalRead (int1Pin s1) False]) = (ok, s4, h5)"
    by (metis prod_cases3)
  from WriteRegister_frame [OF w] obtain evs where
    fr: "interruptError s4 = False" "h5 = (?h3 @ [DigitalRead (int1Pin s1) False]) @ evs"
    by auto
  from assms low w have "s' = s4 \<and> (\<exists>a. h' = h5 @ [AttachInterrupt (int1Pin s4) a])"
    by (auto simp: StartCollecting_def Let_def pinMode_INPUT_PULLUP_def delayMicroseconds_def
        digitalRead_def attachInterrupt_def split: if_splits)
  with fr low show ?thesis by auto
qed

lemma StartCollecting_not_cleared:
  "ClearFifo fuel env cfg (fifoNotEmpty (accelerometerType s)) s h = Some (False, s1, h1) \<Longrightarrow>
     StartCollecting fuel env cfg axes s h = Some (False, s1, h1)"
  by (simp add: StartCollecting_def)

text \<open>
  The FIFO loop is left by its condition when the last read of the status register failed,
  or gave a status that shows the FIFO empty.
\<close>

lemma ClearFifo_ended:
  "ClearFifo fuel env cfg notEmpty s h = Some (True, s1, h1) \<Longrightarrow>
     \<exists>s0 h0 v. ReadRegister env cfg (FifoSource cfg) s0 h0 = (v, s1, h1)
       \<and> (case v of None \<Rightarrow> True | Some val \<Rightarrow> \<not> notEmpty val)"
proof (induction fuel arbitrary: s h)
  case 0
  then show ?case by simp
next
  case (Suc fuel)
  obtain v sa ha where rd: "ReadRegister env cfg (FifoSource cfg) s h = (v, sa, ha)"
    by (metis prod_cases3)
  show ?case
  proof (cases v)
    case None
    with Suc.prems rd have "s1 = sa" "h1 = ha" by simp_all
    with rd None show ?thesis by force
  next
    case (Some val)
    show ?thesis
    proof (cases "notEmpty val")
      case False
      with Suc.prems rd Some have "s1 = sa" "h1 = ha" by simp_all
      with rd Some False show ?thesis by force
    next
      case True
      obtain ok sb hb where rr: "ReadRegisters env cfg (OutXL cfg) 6 sa ha = (ok, sb, hb)"
        by (metis prod_cases3)
      with Suc.prems rd Some True have "ClearFifo fuel env cfg notEmpty sb hb = Some (True, s1, h1)"
        by (simp split: if_splits)
      then show ?thesis by (rule Suc.IH)
    qed
  qed
qed

text \<open>
  C6. Take a call of \<^verbatim>\<open>LIS3DH::StartCollecting\<close> whose loop that clears the FIFO has ended
  (state \<open>s1\<close>, events \<open>h1\<close>). If the INT1 line then reads high, the call sets
  \<^verbatim>\<open>interruptError\<close> and returns false, and its only further events are the pin mode, the
  delay and the read of the line: no write of the control register and no
  \<^verbatim>\<open>attachInterrupt\<close>. And whenever the call returns true (the control register was
  written and the interrupt attached), the line was read low after the loop and
  \<^verbatim>\<open>interruptError\<close> is false. The loop has ended with a read of the status register that
  failed or that showed the FIFO empty.
\<close>

theorem StartCollecting_interrupt_line:
  "ClearFifo fuel env cfg (fifoNotEmpty (accelerometerType s)) s h = Some (True, s1, h1) \<Longrightarrow>
     (pin_digitalRead env (h1 @ [PinModeInputPullup (int1Pin s1), DelayMicroseconds 5]) (int1Pin s1) \<longrightarrow>
        StartCollecting fuel env cfg axes s h
          = Some (False, s1\<lparr>totalNumRead := 0, interruptError := True\<rparr>,
                  h1 @ [PinModeInputPullup (int1Pin s1), DelayMicroseconds 5,
                        DigitalRead (int1Pin s1) True]))
     \<and> (\<forall>s' h'. StartCollecting fuel env cfg axes s h = Some (True, s', h') \<longrightarrow>
          \<not> pin_digitalRead env (h1 @ [PinModeInputPullup (int1Pin s1), DelayMicroseconds 5]) (int1Pin s1)
          \<and> \<not> interruptError s'
          \<and> DigitalRead (int1Pin s1) False \<in> set h')
     \<and> (\<exists>s0 h0 v. ReadRegister env cfg (FifoSource cfg) s0 h0 = (v, s1, h1)
          \<and> (case v of None \<Rightarrow> True | Some val \<Rightarrow> \<not> fifoNotEmpty (accelerometerType s) val))"
proof -
  assume ended: "ClearFifo fuel env cfg (fifoNotEmpty (accelerometerType s)) s h = Some (True, s1, h1)"
  have high: "pin_digitalRead env (h1 @ [PinModeInputPullup (int1Pin s1), DelayMicroseconds 5]) (int1Pin s1) \<longrightarrow>
        StartCollecting fuel env cfg axes s h
          = Some (False, s1\<lparr>totalNumRead := 0, interruptError := True\<rparr>,
                  h1 @ [PinModeInputPullup (int1Pin s1), DelayMicroseconds 5,
                        DigitalRead (int1Pin s1) True])"
    using StartCollecting_line_high [OF ended] by blast
  have armed: "\<forall>s' h'. StartCollecting fuel env cfg axes s h = Some (True, s', h') \<longrightarrow>
          \<not> pin_digitalRead env (h1 @ [PinModeInputPullup (int1Pin s1), DelayMicroseconds 5]) (int1Pin s1)
          \<and> \<not> interruptError s'
          \<and> DigitalRead (int1Pin s1) False \<in> set h'"
    using StartCollecting_true_line_low [OF ended] by blast
  from high armed ClearFifo_ended [OF ended] show ?thesis
    by (intro conjI)
qed

lemma ClearFifo_int1_high:
  "ClearFifo (Suc (Suc 0)) env_int1_high cfg_i2c (fifoNotEmpty (accelerometerType lis_idle)) lis_idle []
     = Some (True, lis_idle\<lparr>transferBuffer_reg := 0x2F, transferBuffer_data := (\<lambda>i. 0x20)\<rparr>,
         [MutexTake 25 True, MasterTransfer 0x18 0x2F (\<lambda>i. 0) 1 1 True, MutexRelease,
          MutexTake 25 True, MasterTransfer 0x18 0xA8 (\<lambda>i. 0) 1 6 True, MutexRelease,
          MutexTake 25 True, MasterTransfer 0x18 0x2F (\<lambda>i. 0x20) 1 1 True, MutexRelease])"
  by (simp add: bus_eval_defs fifoNotEmpty_def env_int1_high_def env_fifo_drains_def
        env_quiet_def cfg_i2c_def lis_idle_def)

theorem StartCollecting_interrupt_line_witness:
  "StartCollecting (Suc (Suc 0)) env_int1_high cfg_i2c 7 lis_idle []
     = Some (False,
         lis_idle\<lparr>transferBuffer_reg := 0x2F, transferBuffer_data := (\<lambda>i. 0x20),
                  totalNumRead := 0, interruptError := True\<rparr>,
         [MutexTake 25 True, MasterTransfer 0x18 0x2F (\<lambda>i. 0) 1 1 True, MutexRelease,
          MutexTake 25 True, MasterTransfer 0x18 0xA8 (\<lambda>i. 0) 1 6 True, MutexRelease,
          MutexTake 25 True, MasterTransfer 0x18 0x2F (\<lambda>i. 0x20) 1 1 True, MutexRelease,
          PinModeInputPullup 3, DelayMicroseconds 5, DigitalRead 3 True])
   \<and> (\<exists>s' h'. StartCollecting (Suc (Suc 0)) env_fifo_drains cfg_i2c 7 lis_idle [] = Some (True, s', h')
         \<and> \<not> interruptError s' \<and> DigitalRead 3 False \<in> set h')"
proof -
  have high: "pin_digitalRead env_int1_high h 3" for h
    by (simp add: env_int1_high_def)
  have pin: "int1Pin (lis_idle\<lparr>transferBuffer_reg := 0x2F, transferBuffer_data := (\<lambda>i. 0x20)\<rparr>) = 3"
    by (simp add: lis_idle_def)
  have run: "\<exists>s' h'. StartCollecting (Suc (Suc 0)) env_fifo_drains cfg_i2c 7 lis_idle [] = Some (True, s', h')"
    by (simp add: StartCollecting_def bus_eval_defs fifoNotEmpty_def WriteRegister_def
          WriteRegisters_def pinMode_INPUT_PULLUP_def attachInterrupt_def env_fifo_drains_def
          env_quiet_def cfg_i2c_def lis_idle_def)
  have drains: "ClearFifo (Suc (Suc 0)) env_fifo_drains cfg_i2c (fifoNotEmpty (accelerometerType lis_idle)) lis_idle []
     = Some (True, lis_idle\<lparr>transferBuffer_reg := 0x2F, transferBuffer_data := (\<lambda>i. 0x20)\<rparr>,
         [MutexTake 25 True, MasterTransfer 0x18 0x2F (\<lambda>i. 0) 1 1 True, MutexRelease,
          MutexTake 25 True, MasterTransfer 0x18 0xA8 (\<lambda>i. 0) 1 6 True, MutexRelease,
          MutexTake 25 True, MasterTransfer 0x18 0x2F (\<lambda>i. 0x20) 1 1 True, MutexRelease])"
    by (simp add: bus_eval_defs fifoNotEmpty_def env_fifo_drains_def env_quiet_def cfg_i2c_def
          lis_idle_def)
  from StartCollecting_interrupt_line [OF ClearFifo_int1_high, of 7] high pin
       StartCollecting_interrupt_line [OF drains, of 7] run
  show ?thesis
    by (auto simp: lis_idle_def)
qed

text \<open>
  C6 does not hold with "after the FIFO has been drained": in \<open>env_status_read_fails\<close> the
  first status read fails, which ends the loop with no sample read; the line reads low, the
  control register is written, the interrupt is attached and the call returns true, while
  the device still reports a FIFO that is not empty.
\<close>

theorem StartCollecting_armed_undrained_counterexample:
  "StartCollecting (Suc 0) env_status_read_fails cfg_i2c 7 lis_idle []
     = Some (True,
         lis_idle\<lparr>transferBuffer_reg := 0x20, transferBuffer_data := (\<lambda>i. 0)(0 := 0x97)\<rparr>,
         [MutexTake 25 True, MasterTransfer 0x18 0x2F (\<lambda>i. 0) 1 1 False, MutexRelease,
          PinModeInputPullup 3, DelayMicroseconds 5, DigitalRead 3 False,
          MutexTake 25 True, MasterTransfer 0x18 0x20 ((\<lambda>i. 0)(0 := 0x97)) 2 0 True, MutexRelease,
          AttachInterrupt 3 True])
   \<and> fst (ReadRegister env_status_read_fails cfg_i2c (FifoSource cfg_i2c)
           (lis_idle\<lparr>transferBuffer_reg := 0x20, transferBuffer_data := (\<lambda>i. 0)(0 := 0x97)\<rparr>)
           [MutexTake 25 True, MasterTransfer 0x18 0x2F (\<lambda>i. 0) 1 1 False, MutexRelease,
            PinModeInputPullup 3, DelayMicroseconds 5, DigitalRead 3 False,
            MutexTake 25 True, MasterTransfer 0x18 0x20 ((\<lambda>i. 0)(0 := 0x97)) 2 0 True, MutexRelease,
            AttachInterrupt 3 True]) = Some 0
   \<and> fifoNotEmpty LIS3DH 0"
  by (simp add: StartCollecting_def bus_eval_defs fifoNotEmpty_def WriteRegister_def
        WriteRegisters_def pinMode_INPUT_PULLUP_def attachInterrupt_def env_status_read_fails_def
        env_quiet_def cfg_i2c_def lis_idle_def fun_eq_iff split: nat.splits)

subsection \<open>LIS3DH::CollectData\<close>

lemma ReadRegisters_events:
  "ReadRegisters env cfg reg n s h = (True, s', h') \<Longrightarrow>
     h' = h @ (if ACCELEROMETER_USES_SPI cfg
               then [SpiSelect Lis3dSpiTimeout True, DelayMicroseconds 1,
                     SpiTransceive
                       (transferBuffer_ptr (s\<lparr>transferBuffer_reg :=
                          reg OR (if n < 2 \<or> accelerometerType s \<noteq> LIS3DH then 0x80 else 0xC0)\<rparr>))
                       (1 + n) True,
                     SpiDeselect]
               else [MutexTake Lis3dI2CTimeout True,
                     MasterTransfer (address s)
                       (if n < 2 \<or> accelerometerType s \<noteq> LIS3DH then reg else reg OR 0x80)
                       (transferBuffer_data s) 1 n True,
                     MutexRelease])"
  by (auto simp: ReadRegisters_def Let_def Select_def TransceivePacket_def Deselect_def
        delayMicroseconds_def Transfer_def Take_def SharedI2CMaster_Transfer_def Release_def
        transferBuffer_ptr_def
      split: if_splits prod.splits)

lemma ReadRegisters_frame:
  "ReadRegisters env cfg reg n s h = (ok, s', h') \<Longrightarrow>
     accelerometerType s' = accelerometerType s \<and> totalNumRead s' = totalNumRead s
     \<and> firstInterruptTime s' = firstInterruptTime s \<and> lastInterruptTime s' = lastInterruptTime s
     \<and> int1Pin s' = int1Pin s \<and> address s' = address s"
  by (auto simp: ReadRegisters_def Let_def Select_def TransceivePacket_def Deselect_def
        Transfer_def Take_def SharedI2CMaster_Transfer_def Release_def transferBuffer_store_def
      split: if_splits prod.splits)

lemma ReadRegister_frame:
  "ReadRegister env cfg reg s h = (v, s', h') \<Longrightarrow>
     accelerometerType s' = accelerometerType s \<and> totalNumRead s' = totalNumRead s
     \<and> firstInterruptTime s' = firstInterruptTime s \<and> lastInterruptTime s' = lastInterruptTime s
     \<and> int1Pin s' = int1Pin s \<and> address s' = address s"
  by (auto simp: ReadRegister_def split: prod.splits dest: ReadRegisters_frame)

lemma Int1Isr_accelerometerType: "accelerometerType (Int1Isr now s) = accelerometerType s"
  by (simp add: Int1Isr_def Let_def)

lemma WaitForInt1_accelerometerType:
  "WaitForInt1 fuel env s h = Some (s1, h1) \<Longrightarrow> accelerometerType s1 = accelerometerType s"
proof (induction fuel arbitrary: s h)
  case 0
  then show ?case by simp
next
  case (Suc fuel)
  show ?case
  proof (cases "pin_digitalRead env h (int1Pin s)")
    case True
    with Suc.prems show ?thesis
      by (simp add: digitalRead_def)
  next
    case False
    with Suc.prems obtain s' h' where
      "WaitForInt1 fuel env s' h' = Some (s1, h1)" "accelerometerType s' = accelerometerType s"
      by (auto simp: digitalRead_def TaskBase_Take_def Int1Isr_accelerometerType
          split: option.splits)
    with Suc.IH show ?thesis
      by metis
  qed
qed

text \<open>
  C7. Take a call of \<^verbatim>\<open>LIS3DH::CollectData\<close> whose wait for the INT1 line
  ends, whose read of the FIFO source register succeeds with a status that shows 24 samples
  (bits 0 to 4, or bits 0 to 5 on the LIS2DW) and has the overflow bit \<open>0x40\<close> clear, and
  whose burst read of \<open>6 * 24\<close> bytes succeeds, the division for the data rate being defined
  (no sample counted so far, or the two time stamps differ). The call returns 24, sets
  \<^verbatim>\<open>overflowed\<close> to false and hands out the transfer buffer; the burst is one bus
  transaction that reads 144 bytes.
\<close>

theorem CollectData_24_samples:
  assumes wake: "WaitForInt1 fuel env (s\<lparr>taskWaiting := True\<rparr>) h = Some (s1, h1)"
    and status: "ReadRegister env cfg (FifoSource cfg) (s1\<lparr>taskWaiting := False\<rparr>) h1
                   = (Some fifoStatus, s2, h2)"
    and avail: "(case accelerometerType s of
                   LIS2DW \<Rightarrow> fifoStatus AND 0x3F
                 | _ \<Rightarrow> fifoStatus AND 0x1F) = 24"
    and no_overflow: "fifoStatus AND 0x40 = 0"
    and burst: "ReadRegisters env cfg (OutXL cfg) (6 * 24) s2 h2 = (True, s3, h3)"
    and defined: "totalNumRead s3 = 0 \<or> lastInterruptTime s3 \<noteq> firstInterruptTime s3"
  shows "(\<exists>dataRate. CollectData fuel env cfg s h
            = Some (Inr (24, Some (transferBuffer_data s3, dataRate, False),
                         s3\<lparr>totalNumRead := totalNumRead s3 + 24\<rparr>, h3)))
         \<and> h3 = h2 @ (if ACCELEROMETER_USES_SPI cfg
                       then [SpiSelect Lis3dSpiTimeout True, DelayMicroseconds 1,
                             SpiTransceive
                               (transferBuffer_ptr (s2\<lparr>transferBuffer_reg :=
                                  OutXL cfg OR (if accelerometerType s \<noteq> LIS3DH then 0x80 else 0xC0)\<rparr>))
                               (1 + 6 * 24) True,
                             SpiDeselect]
                       else [MutexTake Lis3dI2CTimeout True,
                             MasterTransfer (address s2)
                               (if accelerometerType s \<noteq> LIS3DH then OutXL cfg else OutXL cfg OR 0x80)
                               (transferBuffer_data s2) 1 (6 * 24) True,
                             MutexRelease])"
proof -
  have t1: "accelerometerType s1 = accelerometerType s"
    using WaitForInt1_accelerometerType [OF wake] by simp
  have t2: "accelerometerType s2 = accelerometerType s"
    using ReadRegister_frame [OF status] t1 by simp
  have n: "fifoSamples (accelerometerType s2) fifoStatus = 24"
    using avail unfolding fifoSamples_def t2
    by (cases "accelerometerType s") auto
  have z: "lastInterruptTime s3 - firstInterruptTime s3 = 0
             \<longleftrightarrow> lastInterruptTime s3 = firstInterruptTime s3"
    by simp
  have "\<exists>dataRate. CollectData fuel env cfg s h
            = Some (Inr (24, Some (transferBuffer_data s3, dataRate, False),
                         s3\<lparr>totalNumRead := totalNumRead s3 + 24\<rparr>, h3))"
    using burst defined no_overflow
    by (auto simp: CollectData_def wake status n Let_def z)
  moreover have "h3 = h2 @ (if ACCELEROMETER_USES_SPI cfg
                       then [SpiSelect Lis3dSpiTimeout True, DelayMicroseconds 1,
                             SpiTransceive
                               (transferBuffer_ptr (s2\<lparr>transferBuffer_reg :=
                                  OutXL cfg OR (if accelerometerType s \<noteq> LIS3DH then 0x80 else 0xC0)\<rparr>))
                               (1 + 6 * 24) True,
                             SpiDeselect]
                       else [MutexTake Lis3dI2CTimeout True,
                             MasterTransfer (address s2)
                               (if accelerometerType s \<noteq> LIS3DH then OutXL cfg else OutXL cfg OR 0x80)
                               (transferBuffer_data s2) 1 (6 * 24) True,
                             MutexRelease])"
    using ReadRegisters_events [OF burst] by (simp add: t2)
  ultimately show ?thesis ..
qed

lemma WaitForInt1_watermark:
  "WaitForInt1 (Suc (Suc 0)) env_watermark (lis_idle\<lparr>taskWaiting := True\<rparr>) []
     = Some (lis_idle\<lparr>firstInterruptTime := 1000, lastInterruptTime := 1000\<rparr>,
             [DigitalRead 3 False, TaskTake (Some 1000), DigitalRead 3 True])"
  by (simp add: digitalRead_def TaskBase_Take_def Int1Isr_def env_watermark_def env_quiet_def
        lis_idle_def)

lemma ReadRegister_watermark:
  "ReadRegister env_watermark cfg_i2c (FifoSource cfg_i2c)
       (lis_idle\<lparr>firstInterruptTime := 1000, lastInterruptTime := 1000, taskWaiting := False\<rparr>)
       [DigitalRead 3 False, TaskTake (Some 1000), DigitalRead 3 True]
     = (Some 24,
        lis_idle\<lparr>firstInterruptTime := 1000, lastInterruptTime := 1000,
                 transferBuffer_reg := 0x2F, transferBuffer_data := (\<lambda>i. 24)\<rparr>,
        [DigitalRead 3 False, TaskTake (Some 1000), DigitalRead 3 True,
         MutexTake 25 True, MasterTransfer 0x18 0x2F (\<lambda>i. 0) 1 1 True, MutexRelease])"
  by (simp add: bus_eval_defs env_watermark_def env_quiet_def cfg_i2c_def lis_idle_def)

lemma ReadRegisters_watermark:
  "ReadRegisters env_watermark cfg_i2c (OutXL cfg_i2c) (6 * 24)
       (lis_idle\<lparr>firstInterruptTime := 1000, lastInterruptTime := 1000,
                 transferBuffer_reg := 0x2F, transferBuffer_data := (\<lambda>i. 24)\<rparr>)
       [DigitalRead 3 False, TaskTake (Some 1000), DigitalRead 3 True,
         MutexTake 25 True, MasterTransfer 0x18 0x2F (\<lambda>i. 0) 1 1 True, MutexRelease]
     = (True,
        lis_idle\<lparr>firstInterruptTime := 1000, lastInterruptTime := 1000,
                 transferBuffer_reg := 0xA8, transferBuffer_data := (\<lambda>i. 24)\<rparr>,
        [DigitalRead 3 False, TaskTake (Some 1000), DigitalRead 3 True,
         MutexTake 25 True, MasterTransfer 0x18 0x2F (\<lambda>i. 0) 1 1 True, MutexRelease,
         MutexTake 25 True, MasterTransfer 0x18 0xA8 (\<lambda>i. 24) 1 144 True, MutexRelease])"
  by (simp add: bus_eval_defs env_watermark_def env_quiet_def cfg_i2c_def lis_idle_def)

theorem CollectData_24_samples_witness:
  "\<exists>dataRate. CollectData (Suc (Suc 0)) env_watermark cfg_i2c lis_idle []
     = Some (Inr (24, Some (\<lambda>i. 24, dataRate, False),
         lis_idle\<lparr>firstInterruptTime := 1000, lastInterruptTime := 1000,
                  transferBuffer_reg := 0xA8, transferBuffer_data := (\<lambda>i. 24),
                  totalNumRead := 24\<rparr>,
         [DigitalRead 3 False, TaskTake (Some 1000), DigitalRead 3 True,
          MutexTake 25 True, MasterTransfer 0x18 0x2F (\<lambda>i. 0) 1 1 True, MutexRelease,
          MutexTake 25 True, MasterTransfer 0x18 0xA8 (\<lambda>i. 24) 1 144 True, MutexRelease]))"
proof -
  have avail: "(case accelerometerType lis_idle of
                  LIS2DW \<Rightarrow> (24 :: 8 word) AND 0x3F
                | _ \<Rightarrow> 24 AND 0x1F) = 24"
    by (simp add: lis_idle_def)
  have no_overflow: "(24 :: 8 word) AND 0x40 = 0"
    by simp
  have defined: "totalNumRead (lis_idle\<lparr>firstInterruptTime := 1000, lastInterruptTime := 1000,
                 transferBuffer_reg := 0xA8, transferBuffer_data := (\<lambda>i. 24)\<rparr>) = 0
      \<or> lastInterruptTime (lis_idle\<lparr>firstInterruptTime := 1000, lastInterruptTime := 1000,
                 transferBuffer_reg := 0xA8, transferBuffer_data := (\<lambda>i. 24)\<rparr>)
        \<noteq> firstInterruptTime (lis_idle\<lparr>firstInterruptTime := 1000, lastInterruptTime := 1000,
                 transferBuffer_reg := 0xA8, transferBuffer_data := (\<lambda>i. 24)\<rparr>)"
    by (simp add: lis_idle_def)
  from conjunct1 [OF CollectData_24_samples [OF WaitForInt1_watermark ReadRegister_watermark
         avail no_overflow ReadRegisters_watermark defined]]
  show ?thesis
    by (simp add: lis_idle_def)
qed

text \<open>
  C7 needs the burst read to succeed: in \<open>env_burst_fails\<close> the task wakes after
  the interrupt, the status read succeeds with the value 24 (24 samples, overflow bit clear),
  the burst read of 144 bytes is refused, and \<^verbatim>\<open>CollectData\<close> returns 0 and assigns none
  of its reference parameters.
\<close>

theorem CollectData_burst_fails_counterexample:
  "WaitForInt1 (Suc (Suc 0)) env_burst_fails (lis_idle\<lparr>taskWaiting := True\<rparr>) []
     = Some (lis_idle\<lparr>firstInterruptTime := 1000, lastInterruptTime := 1000\<rparr>,
             [DigitalRead 3 False, TaskTake (Some 1000), DigitalRead 3 True])
   \<and> fst (ReadRegister env_burst_fails cfg_i2c (FifoSource cfg_i2c)
            (lis_idle\<lparr>firstInterruptTime := 1000, lastInterruptTime := 1000, taskWaiting := False\<rparr>)
            [DigitalRead 3 False, TaskTake (Some 1000), DigitalRead 3 True]) = Some 24
   \<and> (24 :: 8 word) AND 0x1F = 24
   \<and> (24 :: 8 word) AND 0x40 = 0
   \<and> CollectData (Suc (Suc 0)) env_burst_fails cfg_i2c lis_idle []
       = Some (Inr (0, None,
           lis_idle\<lparr>firstInterruptTime := 1000, lastInterruptTime := 1000,
                    transferBuffer_reg := 0xA8, transferBuffer_data := (\<lambda>i. 24)\<rparr>,
           [DigitalRead 3 False, TaskTake (Some 1000), DigitalRead 3 True,
            MutexTake 25 True, MasterTransfer 0x18 0x2F (\<lambda>i. 0) 1 1 True, MutexRelease,
            MutexTake 25 True, MasterTransfer 0x18 0xA8 (\<lambda>i. 24) 1 144 False, MutexRelease]))"
  by (simp add: CollectData_def fifoSamples_def TaskBase_Take_def Int1Isr_def bus_eval_defs
        env_burst_fails_def env_watermark_def env_quiet_def cfg_i2c_def lis_idle_def)

subsection \<open>Thermistor::Configure\<close>

text \<open>
  The cubic coefficient after a \<^verbatim>\<open>Configure\<close> of a thermistor whose port configuration
  succeeded: the value of \<^verbatim>\<open>C\<close> when it is given; otherwise zero as soon as \<^verbatim>\<open>seen\<close> is
  true after the \<^verbatim>\<open>B\<close> parameter is read, which is when \<^verbatim>\<open>B\<close> is given, and also when
  \<^verbatim>\<open>R\<close> is given or the port configuration set \<^verbatim>\<open>seen\<close>.
\<close>

lemma Configure_shC:
  assumes "\<not> isPT1000 th"
  shows "shC (fst (snd (Configure fp k parser (True, seen0) filterIndex th)))
       = (case floatParam parser CHR ''C'' of
            Some c \<Rightarrow> c
          | None \<Rightarrow>
              if floatParam parser CHR ''B'' \<noteq> None \<or> floatParam parser CHR ''R'' \<noteq> None \<or> seen0
              then f_single fp (f_of_int fp 0)
              else shC th)"
  using assms
  by (auto simp: Configure_def GetFloatParam_def GetIntValue_def CalcDerivedParameters_def Let_def
      split: option.splits prod.splits)

text \<open>
  C5. By the comment in the code (\<^emph>\<open>if user changes B and doesn't define C, assume C=0\<close>)
  the cubic coefficient is reset when \<^verbatim>\<open>B\<close> is given without \<^verbatim>\<open>C\<close>, and a \<^verbatim>\<open>Configure\<close>
  that gives \<^verbatim>\<open>R\<close> but neither \<^verbatim>\<open>B\<close> nor \<^verbatim>\<open>C\<close> should leave it as configured. The code
  tests \<^verbatim>\<open>seen\<close>, which \<^verbatim>\<open>R\<close> has set already: for the thermistor \<open>thermistor_example\<close> with \<open>C = 7.06e-8\<close>, a
  \<^verbatim>\<open>Configure\<close> with \<open>R = 4700\<close> alone sets the coefficient to zero.
\<close>

theorem Configure_seriesR_resets_shC:
  "\<not> isPT1000 thermistor_example
   \<and> shC thermistor_example = 7.06 / 10 ^ 8
   \<and> shC (fst (snd (Configure real_ops consts_vref
         \<lparr>floatParam = [CHR ''R'' \<mapsto> 4700], intParam = Map.empty\<rparr> (True, False) 0
         thermistor_example))) = 0"
proof -
  have pt: "\<not> isPT1000 thermistor_example"
    by (simp add: thermistor_example_def)
  have "shC (fst (snd (Configure real_ops consts_vref
         \<lparr>floatParam = [CHR ''R'' \<mapsto> 4700], intParam = Map.empty\<rparr> (True, False) 0
         thermistor_example))) = 0"
    by (simp add: Configure_shC [OF pt] real_ops_def)
  with pt show ?thesis
    by (simp add: thermistor_example_def)
qed

subsection \<open>Thermistor::Poll\<close>

text \<open>
  For every floating-point arithmetic: when the test \<^verbatim>\<open>denom <= 0.0\<close> holds, and in thermistor
  mode when the test \<^verbatim>\<open>temp < MinimumConnectedTemperature\<close> holds, \<^verbatim>\<open>Poll\<close> calls
  \<^verbatim>\<open>SetResult(ABS_ZERO, openCircuit)\<close>; and a thermistor value reported with \<^verbatim>\<open>success\<close>
  is the computed \<^verbatim>\<open>temp\<close>, not below the minimum.
\<close>

lemma Poll_denominator_not_positive:
  assumes "Poll_readings k th tempFilter vrefFilter vssaFilter = Inr (Inr (vref, vssa, temp))"
    and "f_le fp (Poll_denom fp k vref temp) (f_of_int fp 0)"
  shows "Poll fp k th tempFilter vrefFilter vssaFilter = Inr (SetResult_value (ABS_ZERO k) openCircuit)"
  using assms by (simp add: Poll_def Poll_convert_def)

lemma Poll_below_minimum:
  assumes "Poll_readings k th tempFilter vrefFilter vssaFilter = Inr (Inr (vref, vssa, temp))"
    and "\<not> f_le fp (Poll_denom fp k vref temp) (f_of_int fp 0)"
    and "\<not> isPT1000 th"
    and "f_lt fp (Poll_temp fp k th (Poll_resistance fp k th vssa temp (Poll_denom fp k vref temp)))
           (MinimumConnectedTemperature k)"
  shows "Poll fp k th tempFilter vrefFilter vssaFilter = Inr (SetResult_value (ABS_ZERO k) openCircuit)"
  using assms by (simp add: Poll_def Poll_convert_def Let_def)

lemma Poll_readings_early:
  "Poll_readings k th tempFilter vrefFilter vssaFilter = Inr (Inl call) \<Longrightarrow>
     call = SetResult_error notReady \<or> call = SetResult_error badVref
     \<or> call = SetResult_error badVssa"
  by (auto simp: Poll_readings_def Let_def split: if_splits sum.splits)

lemma Poll_success_value:
  assumes "Poll fp k th tempFilter vrefFilter vssaFilter = Inr (SetResult_value v success)"
    and "\<not> isPT1000 th"
  shows "\<exists>vref vssa temp.
           Poll_readings k th tempFilter vrefFilter vssaFilter = Inr (Inr (vref, vssa, temp))
           \<and> \<not> f_le fp (Poll_denom fp k vref temp) (f_of_int fp 0)
           \<and> v = Poll_temp fp k th (Poll_resistance fp k th vssa temp (Poll_denom fp k vref temp))
           \<and> \<not> f_lt fp v (MinimumConnectedTemperature k)"
  using assms
  by (auto simp: Poll_def Poll_convert_def Let_def split: sum.splits if_splits prod.splits
      dest: Poll_readings_early)

text \<open>
  For every arithmetic in which the test \<^verbatim>\<open><= 0.0\<close> of a converted integer, and of a
  converted integer less one half, is the test of the integer itself (as it is for IEEE
  arithmetic), a reference reading that is not above the thermistor reading gives
  \<^verbatim>\<open>SetResult(ABS_ZERO, openCircuit)\<close>.
\<close>

lemma Poll_denominator_sign:
  assumes "Poll_readings k th tempFilter vrefFilter vssaFilter = Inr (Inr (vref, vssa, temp))"
    and "\<And>d. f_le fp (f_of_int fp d) (f_of_int fp 0) \<longleftrightarrow> d \<le> 0"
    and "\<And>d. f_le fp (f_single fp (f_sub fp (f_of_int fp d) (f_half fp))) (f_of_int fp 0)
            \<longleftrightarrow> d \<le> 0"
    and "vref - temp \<le> 0"
  shows "Poll fp k th tempFilter vrefFilter vssaFilter = Inr (SetResult_value (ABS_ZERO k) openCircuit)"
proof -
  have "f_le fp (Poll_denom fp k vref temp) (f_of_int fp 0)"
    using assms(2) [of "vref - temp"] assms(3) [of "vref - temp"] assms(4)
    by (simp add: Poll_denom_def)
  from Poll_denominator_not_positive [OF assms(1) this] show ?thesis .
qed
















subsection \<open>ScanningSensorHandler::GetReading\<close>

lemma drop_bit_28_zero_iff: "drop_bit 28 (v :: 32 word) = 0 \<longleftrightarrow> v < 2 ^ 28"
proof -
  have "drop_bit 28 v = 0 \<longleftrightarrow> unat (drop_bit 28 v) = 0"
    by (simp add: unat_eq_0)
  also have "\<dots> \<longleftrightarrow> unat v div 2 ^ 28 = 0"
    by (simp add: unat_drop_bit_eq) (simp add: drop_bit_eq_div)
  also have "\<dots> \<longleftrightarrow> unat v < 2 ^ 28"
    by (simp add: div_eq_0_iff)
  also have "\<dots> \<longleftrightarrow> v < 2 ^ 28"
    by (simp add: word_less_nat_alt)
  finally show ?thesis .
qed

text \<open>
  C10. \<^verbatim>\<open>GetReading\<close> returns 0 when the sensor is absent, when the channel read fails, and
  when one of the top four bits of the device result is set. Every nonzero return value is
  the value of a successful channel read and is below \<open>2 ^ 28\<close>. A successful read of the
  value 0 returns the same 0 as every failure.
\<close>

theorem GetReading_zero_on_failure:
  "GetReading G None = 0
   \<and> (\<not> fst (G dev 0) \<longrightarrow> GetReading G (Some dev) = 0)
   \<and> (drop_bit 28 (snd (G dev 0)) \<noteq> 0 \<longrightarrow> GetReading G (Some dev) = 0)
   \<and> (GetReading G sensor \<noteq> 0 \<longrightarrow>
        GetReading G sensor < 2 ^ 28
        \<and> (\<exists>d. sensor = Some d \<and> G d 0 = (True, GetReading G sensor)))
   \<and> (G dev 0 = (True, 0) \<longrightarrow> GetReading G (Some dev) = GetReading G None)"
proof -
  have bound: "GetReading G sensor \<noteq> 0 \<Longrightarrow> drop_bit 28 (GetReading G sensor) = 0"
    by (auto simp: GetReading_def split: option.splits prod.splits if_splits)
  have src: "GetReading G sensor \<noteq> 0 \<Longrightarrow>
      \<exists>d. sensor = Some d \<and> G d 0 = (True, GetReading G sensor)"
    by (auto simp: GetReading_def split: option.splits prod.splits if_splits)
  have fail: "\<not> fst (G dev 0) \<Longrightarrow> GetReading G (Some dev) = 0"
    by (auto simp: GetReading_def split: prod.splits)
  have bits: "drop_bit 28 (snd (G dev 0)) \<noteq> 0 \<Longrightarrow> GetReading G (Some dev) = 0"
    by (auto simp: GetReading_def split: prod.splits)
  have zero: "G dev 0 = (True, 0) \<Longrightarrow> GetReading G (Some dev) = GetReading G None"
    by (simp add: GetReading_def)
  have none: "GetReading G None = 0"
    by (simp add: GetReading_def)
  from bound have lt: "GetReading G sensor \<noteq> 0 \<Longrightarrow> GetReading G sensor < 2 ^ 28"
    using drop_bit_28_zero_iff [of "GetReading G sensor"] by blast
  from none lt src fail bits zero show ?thesis
    by blast
qed

theorem GetReading_zero_on_failure_witness:
  "GetReading (\<lambda>d c. (False, 5)) (Some ()) = 0
   \<and> GetReading (\<lambda>d c. (True, 0x10000005)) (Some ()) = 0
   \<and> GetReading (\<lambda>d c. (True, 5)) (Some ()) = 5
   \<and> GetReading (\<lambda>d c. (True, 5)) (Some ()) < 2 ^ 28
   \<and> GetReading (\<lambda>d c. (True, 0)) (Some ()) = GetReading (\<lambda>d c. (True, 0)) None"
  using GetReading_zero_on_failure [of "\<lambda>d c. (False, 5)" "()" "Some ()"]
        GetReading_zero_on_failure [of "\<lambda>d c. (True, 0x10000005)" "()" "Some ()"]
        GetReading_zero_on_failure [of "\<lambda>d c. (True, 5)" "()" "Some ()"]
        GetReading_zero_on_failure [of "\<lambda>d c. (True, 0)" "()" "Some ()"]
  by (simp add: GetReading_def)

end
